theory Spec2Isabelle
  imports Main "HOL-Library.Word"
begin

section \<open>Common data\<close>

text \<open>
  Byte strings (\<open>ArrayBuffer\<close>, \<open>Uint8Array\<close>) are lists of 8-bit words. A JavaScript
  exception is a value of \<open>error\<close>: \<open>Error m\<close> is \<open>new Error(m)\<close>, \<open>TypeError m\<close> is what
  the engine raises for a property read on \<open>undefined\<close>, \<open>ExternalError m\<close> is a failure
  raised inside a collaborator that is not part of this code base (codec, ratchet,
  provider).
\<close>

type_synonym bytes = "8 word list"

datatype error = Error string | TypeError string | ExternalError string

section \<open>The client: \<open>Client.send\<close> and \<open>Client.onMessage\<close>\<close>

text \<open>
  \<open>SocketCryptoState\<close> is the enum of the source; \<open>readyState\<close> of the socket holds one
  of its values.
\<close>

datatype SocketCryptoState = connecting | opened | closing | closed

record ActionProto =
  action :: string
  actionId :: string
  payload :: bytes

text \<open>
  \<open>ResultProto\<close> is declared in \<open>../core\<close>, outside the files at hand; the code reads and
  writes its fields \<open>actionId\<close>, \<open>action\<close>, \<open>error\<close> and \<open>data\<close>. The wire format is
  protobuf, where a string field that is absent reads as the empty string: \<open>error\<close> is a
  string and the test \<open>if (proto.error)\<close> is \<open>error \<noteq> ''''\<close>. \<open>data\<close> may be \<open>undefined\<close>.
  On the client \<open>data\<close> are the bytes that the codec decoded; on the server \<open>data\<close> is
  the value that a case of \<open>onMessage\<close> assigned, so the type of \<open>data\<close> is a parameter.
\<close>

record 'd ResultProto =
  res_action :: string
  res_actionId :: string
  res_error :: string
  res_data :: "'d option"

text \<open>
  A \<open>PromiseStackItem\<close> is the pair \<open>{resolve, reject}\<close> of one promise made by \<open>send\<close>.
  The promise of the send that took counter value \<open>n\<close> is named \<open>n\<close>, so the item is
  modelled by that number.
\<close>

type_synonym PromiseStackItem = nat

text \<open>
  What the client does to the outside is recorded in order: a call of \<open>resolve\<close> or
  \<open>reject\<close> of promise \<open>n\<close>; the rejection of a \<open>send\<close> promise whose executor threw
  before an \<open>actionId\<close> was assigned; \<open>this.emit(name, ...)\<close>; \<open>socket.send(raw)\<close>; and a
  promise rejection that no handler catches.
\<close>

datatype effect =
    Resolve nat "bytes option"
  | Reject nat error
  | RejectUnassigned error
  | Emit string
  | SocketSend bytes
  | UnhandledRejection error

text \<open>
  The collaborators of the client (the envelope codec and the ratchet cipher) are
  parameters. The ratchet is stateful: its operations take the number of ratchet
  operations done so far. \<open>handshake\<close> is the outcome of what \<open>socket.onopen\<close> does
  (load or create the identity, import the pre-key bundle, create the cipher).
\<close>

record client_env =
  action_exportProto :: "ActionProto \<Rightarrow> error + bytes"
  cipher_encrypt :: "nat \<Rightarrow> bytes \<Rightarrow> error + bytes"
  message_exportProto :: "bytes \<Rightarrow> error + bytes"
  message_importProto :: "bytes \<Rightarrow> error + bytes"
  cipher_decrypt :: "nat \<Rightarrow> bytes \<Rightarrow> error + bytes"
  result_importProto :: "bytes \<Rightarrow> error + bytes ResultProto"
  handshake :: "error + unit"

text \<open>
  \<open>chains\<close> holds the promise chains that \<open>send\<close> has started and that have not run yet
  (\<open>data.exportProto().then(...).then(...)\<close>), each with the promise it belongs to and
  the envelope it serialises.
\<close>

record client_state =
  readyState :: SocketCryptoState
  messageCounter :: nat
  stack :: "string \<rightharpoonup> PromiseStackItem"
  ratchet :: nat
  chains :: "(nat \<times> ActionProto) list"
  effects :: "effect list"

definition client_init :: client_state where
  "client_init = \<lparr> readyState = connecting, messageCounter = 0, stack = Map.empty,
     ratchet = 0, chains = [], effects = [] \<rparr>"

text \<open>\<open>Number.prototype.toString()\<close> on a non-negative integer: decimal digits.\<close>

definition digit_char :: "nat \<Rightarrow> char" where
  "digit_char d = ''0123456789'' ! d"

fun toString :: "nat \<Rightarrow> string" where
  "toString n = (if n < 10 then [digit_char n] else toString (n div 10) @ [digit_char (n mod 10)])"

declare toString.simps [simp del]

definition emit :: "effect \<Rightarrow> client_state \<Rightarrow> client_state" where
  "emit e s = s\<lparr> effects := effects s @ [e] \<rparr>"

text \<open>
  The synchronous part of \<open>send\<close>, run by the promise constructor: \<open>checkSocketState\<close>
  throws when the socket is not open, which rejects the new promise; otherwise the
  envelope takes the action name and the counter value, the counter is incremented and
  the chain is started. The counter is a natural number here: the point where a
  JavaScript number stops counting (\<open>2\<^sup>5\<^sup>3\<close>) is out of reach of a client. A client
  starts, in \<open>client_init\<close>, with its socket created and connecting.
\<close>

definition send :: "string \<Rightarrow> ActionProto option \<Rightarrow> client_state \<Rightarrow> client_state" where
  "send event data s =
     (if readyState s \<noteq> opened
      then emit (RejectUnassigned (Error ''Socket connection is not open'')) s
      else
        let d0 = (case data of None \<Rightarrow> \<lparr> action = [], actionId = [], payload = [] \<rparr> | Some d \<Rightarrow> d);
            n = messageCounter s;
            d = d0\<lparr> action := event, actionId := toString n \<rparr>
        in s\<lparr> messageCounter := Suc n, chains := chains s @ [(n, d)] \<rparr>)"

text \<open>
  The chain of \<open>send\<close> for promise \<open>n\<close>: serialise, encrypt, serialise the message, then
  store \<open>{resolve, reject}\<close> under the \<open>actionId\<close> and write to the socket. The chain has
  no rejection handler: a failure of any of the three steps ends it as an unhandled
  rejection, and neither \<open>resolve\<close> nor \<open>reject\<close> is stored or called. A chain runs
  after the call of \<open>send\<close> has returned, so other events may come first; its own
  steps read nothing of the client but the cipher and are taken as one step.
\<close>

definition send_chain :: "client_env \<Rightarrow> nat \<Rightarrow> ActionProto \<Rightarrow> client_state \<Rightarrow> client_state" where
  "send_chain env n d s =
     (case action_exportProto env d of
        Inl e \<Rightarrow> emit (UnhandledRejection e) s
      | Inr raw \<Rightarrow>
         (case cipher_encrypt env (ratchet s) raw of
            Inl e \<Rightarrow> emit (UnhandledRejection e) s
          | Inr msg \<Rightarrow>
             (case message_exportProto env msg of
                Inl e \<Rightarrow> emit (UnhandledRejection e) (s\<lparr> ratchet := Suc (ratchet s) \<rparr>)
              | Inr raw' \<Rightarrow>
                  emit (SocketSend raw')
                    (s\<lparr> ratchet := Suc (ratchet s), stack := (stack s)(actionId d \<mapsto> n) \<rparr>))))"

definition run_chain :: "client_env \<Rightarrow> nat \<Rightarrow> client_state \<Rightarrow> client_state" where
  "run_chain env n s =
     (case map_of (chains s) n of
        None \<Rightarrow> s
      | Some d \<Rightarrow> send_chain env n d (s\<lparr> chains := filter (\<lambda>c. fst c \<noteq> n) (chains s) \<rparr>))"

text \<open>
  \<open>onMessage\<close>: parse the result, read and delete the stack entry, then call \<open>reject\<close>
  or \<open>resolve\<close> of the entry. With no entry under the \<open>actionId\<close> the read gives
  \<open>undefined\<close> and the call on it raises a \<open>TypeError\<close> inside the async function (an
  \<open>actionId\<close> that names a property every object inherits, such as \<open>constructor\<close>, reads
  a value that has neither function, and the call raises a \<open>TypeError\<close> as well); the
  caller (\<open>socket.onmessage\<close>) does not return the promise of \<open>onMessage\<close>, so its
  \<open>catch\<close> does not see the rejection.
\<close>

definition onMessage :: "client_env \<Rightarrow> bytes \<Rightarrow> client_state \<Rightarrow> client_state" where
  "onMessage env message s =
     (case result_importProto env message of
        Inl e \<Rightarrow> emit (UnhandledRejection e) s
      | Inr proto \<Rightarrow>
         (let promise = stack s (res_actionId proto);
              s1 = s\<lparr> stack := (stack s)(res_actionId proto := None) \<rparr>
          in case promise of
               None \<Rightarrow>
                 emit (UnhandledRejection (TypeError
                   (if res_error proto \<noteq> [] then ''Cannot read property 'reject' of undefined''
                    else ''Cannot read property 'resolve' of undefined''))) s1
             | Some n \<Rightarrow>
                 if res_error proto \<noteq> [] then emit (Reject n (Error (res_error proto))) s1
                 else emit (Resolve n (res_data proto)) s1))"

text \<open>
  The socket handlers installed by \<open>connect\<close>. A frame is binary (\<open>ArrayBuffer\<close>) or
  text; only a binary frame is decrypted and handed to \<open>onMessage\<close>, a failure of the
  import or of the decryption is emitted as an \<open>error\<close> event. \<open>onclose\<close> emits \<open>close\<close>
  and does nothing else; \<open>readyState\<close> is the socket's own and follows its events.
  \<open>onopen\<close> emits \<open>listening\<close> when the handshake has worked and \<open>error\<close> when not;
  \<open>onerror\<close> emits \<open>error\<close>.
\<close>

datatype frame = Binary bytes | Text string

definition socket_onmessage :: "client_env \<Rightarrow> frame \<Rightarrow> client_state \<Rightarrow> client_state" where
  "socket_onmessage env f s =
     (case f of
        Text t \<Rightarrow> s
      | Binary raw \<Rightarrow>
         (case message_importProto env raw of
            Inl e \<Rightarrow> emit (Emit ''error'') s
          | Inr p \<Rightarrow>
             (case cipher_decrypt env (ratchet s) p of
                Inl e \<Rightarrow> emit (Emit ''error'') s
              | Inr msg \<Rightarrow> onMessage env msg (s\<lparr> ratchet := Suc (ratchet s) \<rparr>))))"

definition socket_onclose :: "client_state \<Rightarrow> client_state" where
  "socket_onclose s = emit (Emit ''close'') (s\<lparr> readyState := closed \<rparr>)"

definition socket_onopen :: "client_env \<Rightarrow> client_state \<Rightarrow> client_state" where
  "socket_onopen env s =
     (case handshake env of
        Inl e \<Rightarrow> emit (Emit ''error'') (s\<lparr> readyState := opened \<rparr>)
      | Inr u \<Rightarrow> emit (Emit ''listening'') (s\<lparr> readyState := opened \<rparr>))"

definition socket_onerror :: "client_state \<Rightarrow> client_state" where
  "socket_onerror s = emit (Emit ''error'') s"

text \<open>
  What can happen to a client, one step at a time: the socket opens, the application
  calls \<open>send\<close>, a started chain runs, a frame arrives, the socket reports an error,
  the socket closes.
\<close>

datatype event =
    SocketOpen
  | Send string "ActionProto option"
  | RunChain nat
  | SocketMessage frame
  | SocketError
  | SocketClose

fun step :: "client_env \<Rightarrow> client_state \<Rightarrow> event \<Rightarrow> client_state" where
  "step env s SocketOpen = socket_onopen env s"
| "step env s (Send ev d) = send ev d s"
| "step env s (RunChain n) = run_chain env n s"
| "step env s (SocketMessage f) = socket_onmessage env f s"
| "step env s SocketError = socket_onerror s"
| "step env s SocketClose = socket_onclose s"

definition run :: "client_env \<Rightarrow> event list \<Rightarrow> client_state" where
  "run env evs = foldl (step env) client_init evs"

text \<open>The number of calls of \<open>resolve\<close> or \<open>reject\<close> of promise \<open>n\<close> in a record of effects.\<close>

fun settles :: "nat \<Rightarrow> effect \<Rightarrow> bool" where
  "settles n (Resolve m d) = (m = n)"
| "settles n (Reject m e) = (m = n)"
| "settles n _ = False"

definition settled :: "nat \<Rightarrow> effect list \<Rightarrow> nat" where
  "settled n es = length (filter (settles n) es)"

fun is_Emit :: "effect \<Rightarrow> bool" where
  "is_Emit (Emit name) = True"
| "is_Emit _ = False"

section \<open>The server: data of \<open>LocalServer\<close>\<close>

text \<open>
  A live \<open>CryptoKey\<close> or \<open>CryptoCertificate\<close> of a provider. \<open>key_type\<close> is the \<open>type\<close>
  property (\<open>public\<close>, \<open>private\<close>, \<open>secret\<close>), \<open>cert_type\<close> the one of a certificate
  (\<open>x509\<close>, \<open>request\<close>); \<open>key_object\<close> and \<open>cert_object\<close> name the object itself.
\<close>

record CryptoKey =
  key_type :: string
  key_algorithm :: string
  key_extractable :: bool
  key_usages :: "string list"
  key_object :: nat

record CryptoCertificate =
  cert_type :: string
  cert_publicKey :: CryptoKey
  cert_object :: nat

datatype NativeItem = KeyItem CryptoKey | CertItem CryptoCertificate

fun item_type :: "NativeItem \<Rightarrow> string" where
  "item_type (KeyItem k) = key_type k"
| "item_type (CertItem c) = cert_type c"

text \<open>
  \<open>ServiceCryptoItem\<close> (a row of \<open>memoryStorage\<close>) is built by
  \<open>new ServiceCryptoItem(id, item, providerID)\<close>; \<open>CryptoItemProto\<close> is the handle that
  crosses the wire. Both classes are declared outside the files at hand; the fields are
  the ones \<open>getItemFromStorage\<close> reads.
\<close>

record ServiceCryptoItem =
  item_id :: string
  item :: NativeItem
  providerID :: string

record CryptoItemProto =
  proto_id :: string
  proto_providerID :: string
  proto_type :: string

definition new_ServiceCryptoItem :: "string \<Rightarrow> NativeItem \<Rightarrow> string \<Rightarrow> ServiceCryptoItem" where
  "new_ServiceCryptoItem i x p = \<lparr> item_id = i, item = x, providerID = p \<rparr>"

text \<open>
  Modelled from the spec: \<open>ServiceCryptoItem.toProto\<close> is not in the files at hand. The
  spec gives the handle as \<open>{ id, providerId, type }\<close>, never containing key material.
\<close>

definition toProto :: "ServiceCryptoItem \<Rightarrow> CryptoItemProto" where
  "toProto x = \<lparr> proto_id = item_id x, proto_providerID = providerID x,
                 proto_type = item_type (item x) \<rparr>"

text \<open>
  An \<open>AlgorithmProto\<close> answers \<open>isEmpty()\<close> and \<open>toAlgorithm()\<close>; an algorithm has a name
  and, for key agreement, the serialised handle of the peer's public key (\<open>alg.public\<close>).
\<close>

record Algorithm =
  alg_name :: string
  alg_public :: bytes

datatype AlgorithmProto = AlgorithmProto (isEmpty: bool) (toAlgorithm: Algorithm)

text \<open>
  Key material as \<open>exportKey\<close> returns it and \<open>importKey\<close> takes it (\<open>JsonWebKey | ArrayBuffer\<close>):
  a JSON object or bytes. The value assigned to \<open>resultProto.data\<close> has this type too.
\<close>

datatype KeyData = JsonWebKey "(string \<times> string) list" | Buffer bytes

datatype GeneratedKeys = SingleKey CryptoKey | KeyPair (publicKey: CryptoKey) (privateKey: CryptoKey)

text \<open>
  The actions of the \<open>switch\<close> in \<open>onMessage\<close>, in the order of its \<open>case\<close> labels (each
  stands for the class \<open>\<dots>ActionProto\<close>), and the parameters each class decodes.
\<close>

datatype action_kind =
    ProviderInfo | ProviderGetCrypto | IsLoggedIn | Login
  | Digest | GenerateKey | Sign | Verify | Encrypt | Decrypt | DeriveBits | DeriveKey
  | WrapKey | UnwrapKey | ExportKey | ImportKey
  | KeyStorageGetItem | KeyStorageSetItem | KeyStorageRemoveItem | KeyStorageKeys
  | KeyStorageClear
  | CertificateStorageGetItem | CertificateStorageSetItem | CertificateStorageRemoveItem
  | CertificateStorageImport | CertificateStorageExport | CertificateStorageKeys
  | CertificateStorageClear

definition action_kinds :: "action_kind list" where
  "action_kinds =
     [ProviderInfo, ProviderGetCrypto, IsLoggedIn, Login,
      Digest, GenerateKey, Sign, Verify, Encrypt, Decrypt, DeriveBits, DeriveKey,
      WrapKey, UnwrapKey, ExportKey, ImportKey,
      KeyStorageGetItem, KeyStorageSetItem, KeyStorageRemoveItem, KeyStorageKeys,
      KeyStorageClear,
      CertificateStorageGetItem, CertificateStorageSetItem, CertificateStorageRemoveItem,
      CertificateStorageImport, CertificateStorageExport, CertificateStorageKeys,
      CertificateStorageClear]"

text \<open>
  The first argument of every constructor but the first is \<open>providerID\<close>. \<open>keyUsages\<close> of
  the two \<open>GetItem\<close> actions is \<open>None\<close> for \<open>undefined\<close> and \<open>Some us\<close> for an array; an
  array is truthy in JavaScript, also the empty one. Classes with the same fields share
  a constructor: \<open>ProviderP\<close> (\<open>IsLoggedIn\<close>, \<open>Login\<close>, the \<open>Keys\<close> and \<open>Clear\<close> actions),
  \<open>KeyDataP\<close> (\<open>Sign\<close>, \<open>Encrypt\<close>, \<open>Decrypt\<close>), \<open>GetItemP\<close>, \<open>SetItemP\<close>, \<open>RemoveItemP\<close>.
\<close>

datatype params =
    ProviderGetCryptoP string
  | ProviderP string
  | DigestP string AlgorithmProto bytes
  | GenerateKeyP string AlgorithmProto bool "string list"
  | KeyDataP string AlgorithmProto CryptoItemProto bytes
  | VerifyP string AlgorithmProto CryptoItemProto bytes bytes
  | DeriveBitsP string AlgorithmProto CryptoItemProto nat
  | DeriveKeyP string AlgorithmProto CryptoItemProto AlgorithmProto bool "string list"
  | WrapKeyP string string CryptoItemProto CryptoItemProto AlgorithmProto
  | UnwrapKeyP string string bytes CryptoItemProto AlgorithmProto AlgorithmProto bool "string list"
  | ExportKeyP string string CryptoItemProto
  | ImportKeyP string string bytes AlgorithmProto bool "string list"
  | GetItemP string string AlgorithmProto "string list option"
  | SetItemP string CryptoItemProto
  | RemoveItemP string string
  | CertImportP string string bytes AlgorithmProto "string list"
  | CertExportP string string CryptoItemProto

text \<open>
  Every call that leaves the server for a provider (\<open>provider.getCrypto\<close>, the \<open>Crypto\<close>
  object it returns, its \<open>subtle\<close>, \<open>keyStorage\<close> and \<open>certStorage\<close>), for the software
  provider of the module (\<open>crypto\<close>, node-webcrypto-ossl) or for the notifier, with its
  arguments. \<open>null\<close> and \<open>undefined\<close> arguments are \<open>None\<close>.
\<close>

datatype provider_call =
    Provider_getCrypto string
  | Crypto_isLoggedIn string
  | Crypto_has_login string
  | Crypto_login string string
  | Notifier_notify
  | Subtle_digest string AlgorithmProto bytes
  | Subtle_generateKey string AlgorithmProto bool "string list"
  | Subtle_sign string Algorithm NativeItem bytes
  | Subtle_verify string Algorithm NativeItem bytes bytes
  | Subtle_encrypt string Algorithm NativeItem bytes
  | Subtle_decrypt string Algorithm NativeItem bytes
  | Subtle_deriveBits string Algorithm NativeItem NativeItem nat
  | Subtle_deriveKey string Algorithm NativeItem NativeItem AlgorithmProto bool "string list"
  | Subtle_wrapKey string string NativeItem NativeItem Algorithm
  | Subtle_unwrapKey string string bytes NativeItem Algorithm Algorithm bool "string list"
  | Subtle_exportKey string string NativeItem
  | Subtle_importKey string string KeyData Algorithm bool "string list"
  | KeyStorage_getItem string string "AlgorithmProto option" "string list option"
  | KeyStorage_setItem string NativeItem
  | KeyStorage_removeItem string string
  | KeyStorage_keys string
  | KeyStorage_clear string
  | CertStorage_getItem string string "AlgorithmProto option" "string list option"
  | CertStorage_setItem string NativeItem
  | CertStorage_removeItem string string
  | CertStorage_importCert string string bytes AlgorithmProto "string list"
  | CertStorage_exportCert string string NativeItem
  | CertStorage_keys string
  | CertStorage_clear string
  | Ossl_getRandomValues nat
  | Ossl_importKey string KeyData string bool "string list"
  | Ossl_exportKey string CryptoKey
  | Ossl_digest string bytes

text \<open>
  The providers, the codec and the library functions are parameters. The answer to a
  call may depend on all the calls made before it (a provider has state, key generation
  and random bytes differ from call to call), so every \<open>ask_\<dots>\<close> takes the calls made so
  far and the call; there is one per type of answer. \<open>ACTION\<close> gives the tag of each
  action class and \<open>importProto\<close> its decoder.
\<close>

record server_env =
  ACTION :: "action_kind \<Rightarrow> string"
  importProto :: "action_kind \<Rightarrow> ActionProto \<Rightarrow> error + params"
  keyProto_importProto :: "bytes \<Rightarrow> error + CryptoItemProto"
  item_exportProto :: "CryptoItemProto \<Rightarrow> error + bytes"
  keyPair_exportProto :: "CryptoItemProto \<Rightarrow> CryptoItemProto \<Rightarrow> error + bytes"
  info_exportProto :: "error + bytes"
  ask_unit :: "provider_call list \<Rightarrow> provider_call \<Rightarrow> error + unit"
  ask_bool :: "provider_call list \<Rightarrow> provider_call \<Rightarrow> error + bool"
  ask_bytes :: "provider_call list \<Rightarrow> provider_call \<Rightarrow> error + bytes"
  ask_string :: "provider_call list \<Rightarrow> provider_call \<Rightarrow> error + string"
  ask_strings :: "provider_call list \<Rightarrow> provider_call \<Rightarrow> error + string list"
  ask_key :: "provider_call list \<Rightarrow> provider_call \<Rightarrow> error + CryptoKey"
  ask_key_or_null :: "provider_call list \<Rightarrow> provider_call \<Rightarrow> error + CryptoKey option"
  ask_keys :: "provider_call list \<Rightarrow> provider_call \<Rightarrow> error + GeneratedKeys"
  ask_cert :: "provider_call list \<Rightarrow> provider_call \<Rightarrow> error + CryptoCertificate"
  ask_keydata :: "provider_call list \<Rightarrow> provider_call \<Rightarrow> error + KeyData"
  ask_exported_cert :: "provider_call list \<Rightarrow> provider_call \<Rightarrow> error + (bytes + string)"
  ask_prompt :: "provider_call list \<Rightarrow> string \<times> string"
  random_byte :: "provider_call list \<Rightarrow> nat \<Rightarrow> 8 word"
  JSON_stringify :: "KeyData \<Rightarrow> string"
  JSON_parse :: "string \<Rightarrow> error + (string \<times> string) list"
  FromUtf8String :: "string \<Rightarrow> bytes"
  ToUtf8String :: "bytes \<Rightarrow> string"
  ArrayStringConverter_set :: "string list \<Rightarrow> error + bytes"

text \<open>
  A \<open>Session\<close> of the connection layer (declared outside the files at hand): the server
  reads \<open>cipher\<close>, absent until the ratchet is set up, and \<open>authorized\<close>. An event that
  the server pushes is a \<open>ProviderTokenEventProto\<close> or a \<open>ProviderAuthorizedEventProto\<close>;
  \<open>ProviderCryptoProto\<close> is the wrapper that the token handler puts around each element.
\<close>

record Session =
  session_id :: nat
  cipher :: "nat option"
  authorized :: bool

datatype token_item = ProviderCryptoInfo string string | ProviderCryptoProto token_item

record TokenInfo =
  added :: "token_item list"
  removed :: "token_item list"

datatype server_event = ProviderTokenEventProto TokenInfo | ProviderAuthorizedEventProto

text \<open>
  The state of a \<open>LocalServer\<close>: its session list, its \<open>memoryStorage\<close>, the calls made to
  the providers so far, and what it has handed to \<open>server.send\<close>.
\<close>

record server_state =
  sessions :: "Session list"
  memoryStorage :: "ServiceCryptoItem list"
  calls :: "provider_call list"
  sent :: "(Session \<times> server_event) list"

section \<open>The server: operations\<close>

text \<open>
  A step of an \<open>async\<close> function takes the state and gives a value or the exception it
  threw, with the state as the step left it: what was pushed to \<open>memoryStorage\<close> before
  a \<open>throw\<close> stays there. \<open>await m f\<close> runs \<open>m\<close> and goes on with \<open>f\<close> on its value.
\<close>

type_synonym 'a async = "server_state \<Rightarrow> (error + 'a) \<times> server_state"

definition ret :: "'a \<Rightarrow> 'a async" where
  "ret x = (\<lambda>s. (Inr x, s))"

definition throw :: "error \<Rightarrow> 'a async" where
  "throw e = (\<lambda>s. (Inl e, s))"

definition settle :: "error + 'a \<Rightarrow> 'a async" where
  "settle r = (\<lambda>s. (r, s))"

definition await :: "'a async \<Rightarrow> ('a \<Rightarrow> 'b async) \<Rightarrow> 'b async" where
  "await m f = (\<lambda>s. case m s of (Inl e, s') \<Rightarrow> (Inl e, s') | (Inr x, s') \<Rightarrow> f x s')"

definition call :: "(provider_call list \<Rightarrow> provider_call \<Rightarrow> error + 'a) \<Rightarrow> provider_call \<Rightarrow> 'a async" where
  "call ask c = (\<lambda>s. (ask (calls s) c, s\<lparr> calls := calls s @ [c] \<rparr>))"

definition push :: "ServiceCryptoItem \<Rightarrow> unit async" where
  "push x = (\<lambda>s. (Inr (), s\<lparr> memoryStorage := memoryStorage s @ [x] \<rparr>))"

definition quoted :: "string \<Rightarrow> string" where
  "quoted s = [CHR 0x27] @ s @ [CHR 0x27]"

text \<open>
  \<open>Convert.ToHex\<close> of pvtsutils: two lower-case hexadecimal digits for each byte.
\<close>

definition hex_digit :: "nat \<Rightarrow> char" where
  "hex_digit d = ''0123456789abcdef'' ! d"

definition ToHex :: "bytes \<Rightarrow> string" where
  "ToHex bs = concat (map (\<lambda>b. [hex_digit (unat b div 16), hex_digit (unat b mod 16)]) bs)"

text \<open>
  \<open>String.prototype.toLowerCase\<close> on the ASCII letters: \<open>A\<close> to \<open>Z\<close> go to \<open>a\<close> to \<open>z\<close>. A
  character is a byte here, and the bytes of a character outside ASCII are left as
  they are: the case mapping of Unicode beyond ASCII is not modelled.
\<close>

definition lower_char :: "char \<Rightarrow> char" where
  "lower_char c = (let n = of_char c :: nat in if 65 \<le> n \<and> n \<le> 90 then char_of (n + 32) else c)"

definition toLowerCase :: "string \<Rightarrow> string" where
  "toLowerCase s = map lower_char s"

text \<open>
  The module constant \<open>crypto\<close> is \<open>new (require("node-webcrypto-ossl"))()\<close>: an object,
  so \<open>!crypto\<close> is false wherever the module has loaded.
\<close>

definition module_crypto_defined :: bool where
  "module_crypto_defined = True"

text \<open>
  \<open>getItemFromStorage\<close>: \<open>Array.prototype.some\<close> walks \<open>memoryStorage\<close> in order; the
  callback stores the first row whose \<open>id\<close>, \<open>providerID\<close> and \<open>item.type\<close> equal those
  of the handle and returns \<open>!!foundKey\<close>, which stops the walk. With no row found the
  function throws only under \<open>if (!crypto)\<close>, and otherwise returns \<open>undefined\<close>.
\<close>

fun some_scan :: "CryptoItemProto \<Rightarrow> ServiceCryptoItem option \<Rightarrow> ServiceCryptoItem list \<Rightarrow> ServiceCryptoItem option" where
  "some_scan cryptoItem foundKey [] = foundKey"
| "some_scan cryptoItem foundKey (x # xs) =
     (let foundKey' =
        (if item_id x = proto_id cryptoItem \<and> providerID x = proto_providerID cryptoItem \<and>
            item_type (item x) = proto_type cryptoItem
         then Some x else foundKey)
      in if foundKey' \<noteq> None then foundKey' else some_scan cryptoItem foundKey' xs)"

definition getItemFromStorage :: "CryptoItemProto \<Rightarrow> ServiceCryptoItem option async" where
  "getItemFromStorage cryptoItem = (\<lambda>s.
     let foundKey = some_scan cryptoItem None (memoryStorage s)
     in if foundKey = None
        then (if \<not> module_crypto_defined
              then (Inl (Error (''Cannot get CryptoItem by ID '' @ quoted (proto_id cryptoItem))), s)
              else (Inr foundKey, s))
        else (Inr foundKey, s))"

text \<open>
  The callers read \<open>.item\<close> of what \<open>getItemFromStorage\<close> returned; on \<open>undefined\<close> the
  read raises a \<open>TypeError\<close>.
\<close>

definition dot_item :: "ServiceCryptoItem option \<Rightarrow> NativeItem async" where
  "dot_item found =
     (case found of
        None \<Rightarrow> throw (TypeError ''Cannot read property 'item' of undefined'')
      | Some x \<Rightarrow> ret (item x))"

definition stored_item :: "CryptoItemProto \<Rightarrow> NativeItem async" where
  "stored_item h = await (getItemFromStorage h) dot_item"

text \<open>
  \<open>GetIdentity(key, provider)\<close>. For a key that is not public: 32 random bytes of the
  module's software provider, in hexadecimal. For a public key: export as JWK from the
  given provider, import into the software provider (extractable, same algorithm and
  usages), export as SPKI, hash with SHA-256, in hexadecimal.
\<close>

definition GetIdentity :: "server_env \<Rightarrow> CryptoKey \<Rightarrow> string \<Rightarrow> string async" where
  "GetIdentity env k provider =
     (if key_type k \<noteq> ''public''
      then (\<lambda>s. (Inr (ToHex (map (random_byte env (calls s)) [0..<32])),
                  s\<lparr> calls := calls s @ [Ossl_getRandomValues 32] \<rparr>))
      else
        await (call (ask_keydata env) (Subtle_exportKey provider ''jwk'' (KeyItem k))) (\<lambda>jwk.
        await (call (ask_key env) (Ossl_importKey ''jwk'' jwk (key_algorithm k) True (key_usages k))) (\<lambda>osslKey.
        await (call (ask_bytes env) (Ossl_exportKey ''spki'' osslKey)) (\<lambda>raw.
        await (call (ask_bytes env) (Ossl_digest ''SHA-256'' raw)) (\<lambda>thumbprint.
        ret (ToHex thumbprint))))))"

subsection \<open>The cases of \<open>onMessage\<close>\<close>

text \<open>
  Each case decodes the action with the decoder of its class, gets the \<open>Crypto\<close> of the
  provider, does its work and leaves the value for \<open>resultProto.data\<close> (\<open>None\<close> where the
  case assigns nothing, \<open>Buffer b\<close> for bytes). A decoder returns an object of its
  class; \<open>bad_params\<close> stands where it would not.
\<close>

definition decode :: "server_env \<Rightarrow> action_kind \<Rightarrow> ActionProto \<Rightarrow> params async" where
  "decode env k a = settle (importProto env k a)"

definition getCrypto :: "server_env \<Rightarrow> string \<Rightarrow> unit async" where
  "getCrypto env p = call (ask_unit env) (Provider_getCrypto p)"

definition bad_params :: "'a async" where
  "bad_params = throw (TypeError ''decoded object is not of the class of the action'')"

definition bool_byte :: "bool \<Rightarrow> bytes" where
  "bool_byte b = [if b then 1 else 0]"

text \<open>
  The common tail of the cases that produce one key: thumbprint, new row, push, encode.
\<close>

definition remember_key :: "server_env \<Rightarrow> CryptoKey \<Rightarrow> string \<Rightarrow> KeyData option async" where
  "remember_key env k p =
     await (GetIdentity env k p) (\<lambda>thumbprint.
     let resKey = new_ServiceCryptoItem thumbprint (KeyItem k) p in
     await (push resKey) (\<lambda>_.
     await (settle (item_exportProto env (toProto resKey))) (\<lambda>data.
     ret (Some (Buffer data)))))"

text \<open>The same for a certificate: the row of its public key, then the row of the certificate.\<close>

definition remember_cert :: "server_env \<Rightarrow> CryptoCertificate \<Rightarrow> string \<Rightarrow> KeyData option async" where
  "remember_cert env c p =
     await (GetIdentity env (cert_publicKey c) p) (\<lambda>thumbprint.
     let cryptoKey = new_ServiceCryptoItem thumbprint (KeyItem (cert_publicKey c)) p in
     await (push cryptoKey) (\<lambda>_.
     let cryptoCert = new_ServiceCryptoItem thumbprint (CertItem c) p in
     await (push cryptoCert) (\<lambda>_.
     await (settle (item_exportProto env (toProto cryptoCert))) (\<lambda>data.
     ret (Some (Buffer data))))))"

definition case_ProviderInfo :: "server_env \<Rightarrow> ActionProto \<Rightarrow> KeyData option async" where
  "case_ProviderInfo env a = await (settle (info_exportProto env)) (\<lambda>data. ret (Some (Buffer data)))"

definition case_ProviderGetCrypto :: "server_env \<Rightarrow> ActionProto \<Rightarrow> KeyData option async" where
  "case_ProviderGetCrypto env a =
     await (decode env ProviderGetCrypto a) (\<lambda>params. case params of
       ProviderGetCryptoP cryptoID \<Rightarrow> await (getCrypto env cryptoID) (\<lambda>_. ret None)
     | _ \<Rightarrow> bad_params)"

definition case_IsLoggedIn :: "server_env \<Rightarrow> ActionProto \<Rightarrow> KeyData option async" where
  "case_IsLoggedIn env a =
     await (decode env IsLoggedIn a) (\<lambda>params. case params of
       ProviderP p \<Rightarrow>
         await (getCrypto env p) (\<lambda>_.
         await (call (ask_bool env) (Crypto_isLoggedIn p)) (\<lambda>isLoggedIn.
         ret (Some (Buffer (bool_byte isLoggedIn)))))
     | _ \<Rightarrow> bad_params)"

text \<open>
  \<open>Login\<close>: when the \<open>Crypto\<close> has a \<open>login\<close> method the notifier prompts; its callback
  gets the response and the value typed in. Any response but \<open>replied\<close> rejects with
  \<open>CryptoLogin timeout\<close>, and what \<open>crypto.login\<close> throws rejects as well.
\<close>

definition case_Login :: "server_env \<Rightarrow> ActionProto \<Rightarrow> KeyData option async" where
  "case_Login env a =
     await (decode env Login a) (\<lambda>params. case params of
       ProviderP p \<Rightarrow>
         await (getCrypto env p) (\<lambda>_.
         await (call (ask_bool env) (Crypto_has_login p)) (\<lambda>has_login.
         if has_login
         then await (call (\<lambda>h c. Inr (ask_prompt env h)) Notifier_notify) (\<lambda>(response, activationValue).
              if response \<noteq> ''replied'' then throw (Error ''CryptoLogin timeout'')
              else await (call (ask_unit env) (Crypto_login p activationValue)) (\<lambda>_. ret None))
         else ret None))
     | _ \<Rightarrow> bad_params)"

definition case_Digest :: "server_env \<Rightarrow> ActionProto \<Rightarrow> KeyData option async" where
  "case_Digest env a =
     await (decode env Digest a) (\<lambda>params. case params of
       DigestP p algorithm data \<Rightarrow>
         await (getCrypto env p) (\<lambda>_.
         await (call (ask_bytes env) (Subtle_digest p algorithm data)) (\<lambda>d. ret (Some (Buffer d))))
     | _ \<Rightarrow> bad_params)"

text \<open>
  \<open>GenerateKey\<close>: for a pair (\<open>keys.privateKey\<close> is there) one thumbprint, computed from
  the public key, goes into both rows; the rows are pushed, public key first, before
  the pair of handles is encoded. For a single key: \<open>remember_key\<close>.
\<close>

definition case_GenerateKey :: "server_env \<Rightarrow> ActionProto \<Rightarrow> KeyData option async" where
  "case_GenerateKey env a =
     await (decode env GenerateKey a) (\<lambda>params. case params of
       GenerateKeyP p algorithm extractable usage \<Rightarrow>
         await (getCrypto env p) (\<lambda>_.
         await (call (ask_keys env) (Subtle_generateKey p algorithm extractable usage)) (\<lambda>keys.
         case keys of
           KeyPair pub priv \<Rightarrow>
             await (GetIdentity env pub p) (\<lambda>thumbprint.
             let publicKey = new_ServiceCryptoItem thumbprint (KeyItem pub) p;
                 privateKey = new_ServiceCryptoItem thumbprint (KeyItem priv) p in
             await (push publicKey) (\<lambda>_.
             await (push privateKey) (\<lambda>_.
             await (settle (keyPair_exportProto env (toProto privateKey) (toProto publicKey))) (\<lambda>data.
             ret (Some (Buffer data))))))
         | SingleKey k \<Rightarrow> remember_key env k p))
     | _ \<Rightarrow> bad_params)"

definition case_Sign :: "server_env \<Rightarrow> ActionProto \<Rightarrow> KeyData option async" where
  "case_Sign env a =
     await (decode env Sign a) (\<lambda>params. case params of
       KeyDataP p algorithm h data \<Rightarrow>
         await (getCrypto env p) (\<lambda>_.
         await (stored_item h) (\<lambda>k.
         await (call (ask_bytes env) (Subtle_sign p (toAlgorithm algorithm) k data)) (\<lambda>d.
         ret (Some (Buffer d)))))
     | _ \<Rightarrow> bad_params)"

definition case_Verify :: "server_env \<Rightarrow> ActionProto \<Rightarrow> KeyData option async" where
  "case_Verify env a =
     await (decode env Verify a) (\<lambda>params. case params of
       VerifyP p algorithm h signature data \<Rightarrow>
         await (getCrypto env p) (\<lambda>_.
         await (stored_item h) (\<lambda>k.
         await (call (ask_bool env) (Subtle_verify p (toAlgorithm algorithm) k signature data)) (\<lambda>ok.
         ret (Some (Buffer (bool_byte ok))))))
     | _ \<Rightarrow> bad_params)"

definition case_Encrypt :: "server_env \<Rightarrow> ActionProto \<Rightarrow> KeyData option async" where
  "case_Encrypt env a =
     await (decode env Encrypt a) (\<lambda>params. case params of
       KeyDataP p algorithm h data \<Rightarrow>
         await (getCrypto env p) (\<lambda>_.
         await (stored_item h) (\<lambda>k.
         await (call (ask_bytes env) (Subtle_encrypt p (toAlgorithm algorithm) k data)) (\<lambda>d.
         ret (Some (Buffer d)))))
     | _ \<Rightarrow> bad_params)"

definition case_Decrypt :: "server_env \<Rightarrow> ActionProto \<Rightarrow> KeyData option async" where
  "case_Decrypt env a =
     await (decode env Decrypt a) (\<lambda>params. case params of
       KeyDataP p algorithm h data \<Rightarrow>
         await (getCrypto env p) (\<lambda>_.
         await (stored_item h) (\<lambda>k.
         await (call (ask_bytes env) (Subtle_decrypt p (toAlgorithm algorithm) k data)) (\<lambda>d.
         ret (Some (Buffer d)))))
     | _ \<Rightarrow> bad_params)"

text \<open>
  \<open>DeriveBits\<close> and \<open>DeriveKey\<close>: \<open>alg.public\<close> holds a serialised handle, which is decoded
  and looked up, and the live key takes its place in the algorithm.
\<close>

definition case_DeriveBits :: "server_env \<Rightarrow> ActionProto \<Rightarrow> KeyData option async" where
  "case_DeriveBits env a =
     await (decode env DeriveBits a) (\<lambda>params. case params of
       DeriveBitsP p algorithm h len \<Rightarrow>
         await (getCrypto env p) (\<lambda>_.
         await (stored_item h) (\<lambda>k.
         let alg = toAlgorithm algorithm in
         await (settle (keyProto_importProto env (alg_public alg))) (\<lambda>publicKey.
         await (stored_item publicKey) (\<lambda>pub.
         await (call (ask_bytes env) (Subtle_deriveBits p alg pub k len)) (\<lambda>d.
         ret (Some (Buffer d)))))))
     | _ \<Rightarrow> bad_params)"

definition case_DeriveKey :: "server_env \<Rightarrow> ActionProto \<Rightarrow> KeyData option async" where
  "case_DeriveKey env a =
     await (decode env DeriveKey a) (\<lambda>params. case params of
       DeriveKeyP p algorithm h derivedKeyType extractable usage \<Rightarrow>
         await (getCrypto env p) (\<lambda>_.
         await (stored_item h) (\<lambda>k.
         let alg = toAlgorithm algorithm in
         await (settle (keyProto_importProto env (alg_public alg))) (\<lambda>publicKey.
         await (stored_item publicKey) (\<lambda>pub.
         await (call (ask_key env) (Subtle_deriveKey p alg pub k derivedKeyType extractable usage)) (\<lambda>derivedKey.
         remember_key env derivedKey p)))))
     | _ \<Rightarrow> bad_params)"

definition case_WrapKey :: "server_env \<Rightarrow> ActionProto \<Rightarrow> KeyData option async" where
  "case_WrapKey env a =
     await (decode env WrapKey a) (\<lambda>params. case params of
       WrapKeyP p format h wh wrapAlgorithm \<Rightarrow>
         await (getCrypto env p) (\<lambda>_.
         await (stored_item h) (\<lambda>k.
         await (stored_item wh) (\<lambda>wrappingKey.
         await (call (ask_bytes env) (Subtle_wrapKey p format k wrappingKey (toAlgorithm wrapAlgorithm))) (\<lambda>d.
         ret (Some (Buffer d))))))
     | _ \<Rightarrow> bad_params)"

definition case_UnwrapKey :: "server_env \<Rightarrow> ActionProto \<Rightarrow> KeyData option async" where
  "case_UnwrapKey env a =
     await (decode env UnwrapKey a) (\<lambda>params. case params of
       UnwrapKeyP p format wrappedKey uh unwrapAlgorithm unwrappedKeyAlgorithm extractable keyUsage \<Rightarrow>
         await (getCrypto env p) (\<lambda>_.
         await (stored_item uh) (\<lambda>unwrappingKey.
         await (call (ask_key env) (Subtle_unwrapKey p format wrappedKey unwrappingKey
                  (toAlgorithm unwrapAlgorithm) (toAlgorithm unwrappedKeyAlgorithm) extractable keyUsage)) (\<lambda>k.
         remember_key env k p)))
     | _ \<Rightarrow> bad_params)"

text \<open>
  \<open>ExportKey\<close>: the provider exports under the format as received; when the format in
  lower case is \<open>jwk\<close> the result is turned into JSON text and that into bytes, otherwise
  the data are the result as it is (\<open>exportedData as ArrayBuffer\<close>, a cast that does nothing
  when the code runs).
\<close>

definition case_ExportKey :: "server_env \<Rightarrow> ActionProto \<Rightarrow> KeyData option async" where
  "case_ExportKey env a =
     await (decode env ExportKey a) (\<lambda>params. case params of
       ExportKeyP p format h \<Rightarrow>
         await (getCrypto env p) (\<lambda>_.
         await (stored_item h) (\<lambda>k.
         await (call (ask_keydata env) (Subtle_exportKey p format k)) (\<lambda>exportedData.
         if toLowerCase format = ''jwk''
         then let json = JSON_stringify env exportedData in ret (Some (Buffer (FromUtf8String env json)))
         else ret (Some exportedData))))
     | _ \<Rightarrow> bad_params)"

text \<open>
  \<open>ImportKey\<close>: when the format in lower case is \<open>jwk\<close> the key data are read as UTF-8
  text and parsed as JSON (\<open>JSON.parse\<close> may throw), otherwise they are passed as bytes.
\<close>

definition case_ImportKey :: "server_env \<Rightarrow> ActionProto \<Rightarrow> KeyData option async" where
  "case_ImportKey env a =
     await (decode env ImportKey a) (\<lambda>params. case params of
       ImportKeyP p format keyData algorithm extractable keyUsages \<Rightarrow>
         await (getCrypto env p) (\<lambda>_.
         await (if toLowerCase format = ''jwk''
                then let json = ToUtf8String env keyData in
                     await (settle (JSON_parse env json)) (\<lambda>j. ret (JsonWebKey j))
                else ret (Buffer keyData)) (\<lambda>keyData'.
         await (call (ask_key env) (Subtle_importKey p format keyData' (toAlgorithm algorithm)
                  extractable keyUsages)) (\<lambda>k.
         remember_key env k p)))
     | _ \<Rightarrow> bad_params)"

text \<open>
  \<open>KeyStorage.GetItem\<close>: the algorithm is passed unless it is empty; the third argument
  is \<open>params.keyUsages ? null : params.keyUsages\<close>. A \<open>null\<close> key throws.
\<close>

definition case_KeyStorageGetItem :: "server_env \<Rightarrow> ActionProto \<Rightarrow> KeyData option async" where
  "case_KeyStorageGetItem env a =
     await (decode env KeyStorageGetItem a) (\<lambda>params. case params of
       GetItemP p key algorithm keyUsages \<Rightarrow>
         await (getCrypto env p) (\<lambda>_.
         await (call (ask_key_or_null env) (KeyStorage_getItem p key
                  (if isEmpty algorithm then None else Some algorithm)
                  (if keyUsages \<noteq> None then None else keyUsages))) (\<lambda>found.
         case found of
           None \<Rightarrow> throw (Error (''Cannot get key by identity '' @ quoted key))
         | Some k \<Rightarrow> remember_key env k p))
     | _ \<Rightarrow> bad_params)"

definition case_KeyStorageSetItem :: "server_env \<Rightarrow> ActionProto \<Rightarrow> KeyData option async" where
  "case_KeyStorageSetItem env a =
     await (decode env KeyStorageSetItem a) (\<lambda>params. case params of
       SetItemP p h \<Rightarrow>
         await (stored_item h) (\<lambda>k.
         await (getCrypto env p) (\<lambda>_.
         await (call (ask_string env) (KeyStorage_setItem p k)) (\<lambda>index.
         ret (Some (Buffer (FromUtf8String env index))))))
     | _ \<Rightarrow> bad_params)"

definition case_KeyStorageRemoveItem :: "server_env \<Rightarrow> ActionProto \<Rightarrow> KeyData option async" where
  "case_KeyStorageRemoveItem env a =
     await (decode env KeyStorageRemoveItem a) (\<lambda>params. case params of
       RemoveItemP p key \<Rightarrow>
         await (getCrypto env p) (\<lambda>_.
         await (call (ask_unit env) (KeyStorage_removeItem p key)) (\<lambda>_. ret None))
     | _ \<Rightarrow> bad_params)"

definition case_KeyStorageKeys :: "server_env \<Rightarrow> ActionProto \<Rightarrow> KeyData option async" where
  "case_KeyStorageKeys env a =
     await (decode env KeyStorageKeys a) (\<lambda>params. case params of
       ProviderP p \<Rightarrow>
         await (getCrypto env p) (\<lambda>_.
         await (call (ask_strings env) (KeyStorage_keys p)) (\<lambda>keys.
         await (settle (ArrayStringConverter_set env keys)) (\<lambda>d. ret (Some (Buffer d)))))
     | _ \<Rightarrow> bad_params)"

text \<open>\<open>KeyStorage.Clear\<close>: the operation of the case is \<open>crypto.certStorage.clear()\<close>.\<close>

definition case_KeyStorageClear :: "server_env \<Rightarrow> ActionProto \<Rightarrow> KeyData option async" where
  "case_KeyStorageClear env a =
     await (decode env KeyStorageClear a) (\<lambda>params. case params of
       ProviderP p \<Rightarrow>
         await (getCrypto env p) (\<lambda>_.
         await (call (ask_unit env) (CertStorage_clear p)) (\<lambda>_. ret None))
     | _ \<Rightarrow> bad_params)"

definition case_CertificateStorageGetItem :: "server_env \<Rightarrow> ActionProto \<Rightarrow> KeyData option async" where
  "case_CertificateStorageGetItem env a =
     await (decode env CertificateStorageGetItem a) (\<lambda>params. case params of
       GetItemP p key algorithm keyUsages \<Rightarrow>
         await (getCrypto env p) (\<lambda>_.
         await (call (ask_cert env) (CertStorage_getItem p key
                  (if isEmpty algorithm then None else Some algorithm)
                  (if keyUsages \<noteq> None then None else keyUsages))) (\<lambda>c.
         remember_cert env c p))
     | _ \<Rightarrow> bad_params)"

definition case_CertificateStorageSetItem :: "server_env \<Rightarrow> ActionProto \<Rightarrow> KeyData option async" where
  "case_CertificateStorageSetItem env a =
     await (decode env CertificateStorageSetItem a) (\<lambda>params. case params of
       SetItemP p h \<Rightarrow>
         await (getCrypto env p) (\<lambda>_.
         await (stored_item h) (\<lambda>cert.
         await (call (ask_string env) (CertStorage_setItem p cert)) (\<lambda>index.
         ret (Some (Buffer (FromUtf8String env index))))))
     | _ \<Rightarrow> bad_params)"

definition case_CertificateStorageRemoveItem :: "server_env \<Rightarrow> ActionProto \<Rightarrow> KeyData option async" where
  "case_CertificateStorageRemoveItem env a =
     await (decode env CertificateStorageRemoveItem a) (\<lambda>params. case params of
       RemoveItemP p key \<Rightarrow>
         await (getCrypto env p) (\<lambda>_.
         await (call (ask_unit env) (CertStorage_removeItem p key)) (\<lambda>_. ret None))
     | _ \<Rightarrow> bad_params)"

definition case_CertificateStorageImport :: "server_env \<Rightarrow> ActionProto \<Rightarrow> KeyData option async" where
  "case_CertificateStorageImport env a =
     await (decode env CertificateStorageImport a) (\<lambda>params. case params of
       CertImportP p type data algorithm keyUsages \<Rightarrow>
         await (getCrypto env p) (\<lambda>_.
         await (call (ask_cert env) (CertStorage_importCert p type data algorithm keyUsages)) (\<lambda>c.
         remember_cert env c p))
     | _ \<Rightarrow> bad_params)"

definition case_CertificateStorageExport :: "server_env \<Rightarrow> ActionProto \<Rightarrow> KeyData option async" where
  "case_CertificateStorageExport env a =
     await (decode env CertificateStorageExport a) (\<lambda>params. case params of
       CertExportP p format h \<Rightarrow>
         await (getCrypto env p) (\<lambda>_.
         await (stored_item h) (\<lambda>cert.
         await (call (ask_exported_cert env) (CertStorage_exportCert p format cert)) (\<lambda>exportedData.
         case exportedData of
           Inl b \<Rightarrow> ret (Some (Buffer b))
         | Inr t \<Rightarrow> ret (Some (Buffer (FromUtf8String env t))))))
     | _ \<Rightarrow> bad_params)"

definition case_CertificateStorageKeys :: "server_env \<Rightarrow> ActionProto \<Rightarrow> KeyData option async" where
  "case_CertificateStorageKeys env a =
     await (decode env CertificateStorageKeys a) (\<lambda>params. case params of
       ProviderP p \<Rightarrow>
         await (getCrypto env p) (\<lambda>_.
         await (call (ask_strings env) (CertStorage_keys p)) (\<lambda>keys.
         await (settle (ArrayStringConverter_set env keys)) (\<lambda>d. ret (Some (Buffer d)))))
     | _ \<Rightarrow> bad_params)"

text \<open>\<open>CertificateStorage.Clear\<close> decodes with the decoder of \<open>CertificateStorageKeysActionProto\<close>.\<close>

definition case_CertificateStorageClear :: "server_env \<Rightarrow> ActionProto \<Rightarrow> KeyData option async" where
  "case_CertificateStorageClear env a =
     await (decode env CertificateStorageKeys a) (\<lambda>params. case params of
       ProviderP p \<Rightarrow>
         await (getCrypto env p) (\<lambda>_.
         await (call (ask_unit env) (CertStorage_clear p)) (\<lambda>_. ret None))
     | _ \<Rightarrow> bad_params)"

subsection \<open>\<open>LocalServer.onMessage\<close> and the event handlers\<close>

fun handle :: "server_env \<Rightarrow> action_kind \<Rightarrow> ActionProto \<Rightarrow> KeyData option async" where
  "handle env ProviderInfo = case_ProviderInfo env"
| "handle env ProviderGetCrypto = case_ProviderGetCrypto env"
| "handle env IsLoggedIn = case_IsLoggedIn env"
| "handle env Login = case_Login env"
| "handle env Digest = case_Digest env"
| "handle env GenerateKey = case_GenerateKey env"
| "handle env Sign = case_Sign env"
| "handle env Verify = case_Verify env"
| "handle env Encrypt = case_Encrypt env"
| "handle env Decrypt = case_Decrypt env"
| "handle env DeriveBits = case_DeriveBits env"
| "handle env DeriveKey = case_DeriveKey env"
| "handle env WrapKey = case_WrapKey env"
| "handle env UnwrapKey = case_UnwrapKey env"
| "handle env ExportKey = case_ExportKey env"
| "handle env ImportKey = case_ImportKey env"
| "handle env KeyStorageGetItem = case_KeyStorageGetItem env"
| "handle env KeyStorageSetItem = case_KeyStorageSetItem env"
| "handle env KeyStorageRemoveItem = case_KeyStorageRemoveItem env"
| "handle env KeyStorageKeys = case_KeyStorageKeys env"
| "handle env KeyStorageClear = case_KeyStorageClear env"
| "handle env CertificateStorageGetItem = case_CertificateStorageGetItem env"
| "handle env CertificateStorageSetItem = case_CertificateStorageSetItem env"
| "handle env CertificateStorageRemoveItem = case_CertificateStorageRemoveItem env"
| "handle env CertificateStorageImport = case_CertificateStorageImport env"
| "handle env CertificateStorageExport = case_CertificateStorageExport env"
| "handle env CertificateStorageKeys = case_CertificateStorageKeys env"
| "handle env CertificateStorageClear = case_CertificateStorageClear env"

text \<open>
  \<open>new ResultProto(action)\<close> takes over \<open>action\<close> and \<open>actionId\<close>. The \<open>switch\<close> compares
  \<open>action.action\<close> with the tag of each case in the order of the labels; the first equal
  one runs, and with none the \<open>default\<close> throws.
\<close>

definition new_ResultProto :: "ActionProto \<Rightarrow> KeyData ResultProto" where
  "new_ResultProto a = \<lparr> res_action = action a, res_actionId = actionId a, res_error = [],
                         res_data = None \<rparr>"

definition LocalServer_onMessage :: "server_env \<Rightarrow> Session \<Rightarrow> ActionProto \<Rightarrow> KeyData ResultProto async" where
  "LocalServer_onMessage env session a =
     (let resultProto = new_ResultProto a in
      case find (\<lambda>k. action a = ACTION env k) action_kinds of
        None \<Rightarrow> throw (Error (''Unknown action '' @ quoted (action a)))
      | Some k \<Rightarrow> await (handle env k a) (\<lambda>data. ret (resultProto\<lparr> res_data := data \<rparr>)))"

text \<open>
  Modelled from the spec: the connection layer (\<open>Server\<close> of \<open>../connection/server\<close>, which
  supplies \<open>e.resolve\<close> and \<open>e.reject\<close> of the \<open>message\<close> event) is not in the files at
  hand. The spec: any condition raised inside a handler is converted to a result
  envelope with the \<open>error\<close> field set to the message, the \<open>data\<close> field absent; errors of
  a handler do not close the session.
\<close>

fun error_message :: "error \<Rightarrow> string" where
  "error_message (Error m) = m"
| "error_message (TypeError m) = m"
| "error_message (ExternalError m) = m"

definition Server_reply :: "ActionProto \<Rightarrow> error + KeyData ResultProto \<Rightarrow> KeyData ResultProto" where
  "Server_reply a r =
     (case r of
        Inr res \<Rightarrow> res
      | Inl e \<Rightarrow> (new_ResultProto a)\<lparr> res_error := error_message e \<rparr>)"

text \<open>
  The listener of the \<open>message\<close> event in \<open>listen\<close>:
  \<open>this.onMessage(e.session, e.message).then(e.resolve, e.reject)\<close>.
\<close>

definition on_message :: "server_env \<Rightarrow> Session \<Rightarrow> ActionProto \<Rightarrow> server_state \<Rightarrow> KeyData ResultProto \<times> server_state" where
  "on_message env session a s =
     (case LocalServer_onMessage env session a s of (r, s') \<Rightarrow> (Server_reply a r, s'))"

text \<open>
  The listener of the provider's \<open>token\<close> event, set up in the constructor: for each
  session in order, when the session has a cipher and is authorized, every element of
  \<open>info.removed\<close> and of \<open>info.added\<close> is replaced by \<open>new ProviderCryptoProto(item)\<close>, in
  place, and \<open>new ProviderTokenEventProto(info)\<close> is handed to \<open>server.send\<close>.
\<close>

fun token_sessions :: "Session list \<Rightarrow> TokenInfo \<Rightarrow> (Session \<times> server_event) list" where
  "token_sessions [] info = []"
| "token_sessions (session # rest) info =
     (if cipher session \<noteq> None \<and> authorized session
      then let info' = \<lparr> added = map ProviderCryptoProto (added info),
                          removed = map ProviderCryptoProto (removed info) \<rparr>
           in (session, ProviderTokenEventProto info') # token_sessions rest info'
      else token_sessions rest info)"

definition on_token :: "TokenInfo \<Rightarrow> server_state \<Rightarrow> server_state" where
  "on_token info s = s\<lparr> sent := sent s @ token_sessions (sessions s) info \<rparr>"

text \<open>The listeners of \<open>connect\<close> and \<open>auth\<close> in \<open>listen\<close>.\<close>

definition on_connect :: "Session \<Rightarrow> server_state \<Rightarrow> server_state" where
  "on_connect session s =
     (if \<not> (length (sessions s) \<noteq> 0 \<and> list_ex (\<lambda>x. x = session) (sessions s))
      then s\<lparr> sessions := sessions s @ [session] \<rparr> else s)"

definition on_auth :: "Session \<Rightarrow> server_state \<Rightarrow> server_state" where
  "on_auth session s = s\<lparr> sent := sent s @ [(session, ProviderAuthorizedEventProto)] \<rparr>"

definition server_init :: server_state where
  "server_init = \<lparr> sessions = [], memoryStorage = [], calls = [], sent = [] \<rparr>"


subsection \<open>A concrete server environment\<close>

text \<open>
  Providers to run the server on. Every decoder gives the parameters \<open>p\<close>. Key
  generation gives a pair whose objects are numbered by the calls made so far; the
  software provider exports a key as the byte of its number and hashes by reversing;
  a JWK export is a one-field object naming the key type. \<open>repeating_provider\<close> is the
  same with a generator that returns one and the same pair at every call.
\<close>

fun demo_ACTION :: "action_kind \<Rightarrow> string" where
  "demo_ACTION ProviderInfo = ''provider/action/info''"
| "demo_ACTION ProviderGetCrypto = ''provider/action/getCrypto''"
| "demo_ACTION IsLoggedIn = ''crypto/isLoggedIn''"
| "demo_ACTION Login = ''crypto/login''"
| "demo_ACTION Digest = ''crypto/subtle/digest''"
| "demo_ACTION GenerateKey = ''crypto/subtle/generateKey''"
| "demo_ACTION Sign = ''crypto/subtle/sign''"
| "demo_ACTION Verify = ''crypto/subtle/verify''"
| "demo_ACTION Encrypt = ''crypto/subtle/encrypt''"
| "demo_ACTION Decrypt = ''crypto/subtle/decrypt''"
| "demo_ACTION DeriveBits = ''crypto/subtle/deriveBits''"
| "demo_ACTION DeriveKey = ''crypto/subtle/deriveKey''"
| "demo_ACTION WrapKey = ''crypto/subtle/wrapKey''"
| "demo_ACTION UnwrapKey = ''crypto/subtle/unwrapKey''"
| "demo_ACTION ExportKey = ''crypto/subtle/exportKey''"
| "demo_ACTION ImportKey = ''crypto/subtle/importKey''"
| "demo_ACTION KeyStorageGetItem = ''crypto/keyStorage/getItem''"
| "demo_ACTION KeyStorageSetItem = ''crypto/keyStorage/setItem''"
| "demo_ACTION KeyStorageRemoveItem = ''crypto/keyStorage/removeItem''"
| "demo_ACTION KeyStorageKeys = ''crypto/keyStorage/keys''"
| "demo_ACTION KeyStorageClear = ''crypto/keyStorage/clear''"
| "demo_ACTION CertificateStorageGetItem = ''crypto/certificateStorage/getItem''"
| "demo_ACTION CertificateStorageSetItem = ''crypto/certificateStorage/setItem''"
| "demo_ACTION CertificateStorageRemoveItem = ''crypto/certificateStorage/removeItem''"
| "demo_ACTION CertificateStorageImport = ''crypto/certificateStorage/import''"
| "demo_ACTION CertificateStorageExport = ''crypto/certificateStorage/export''"
| "demo_ACTION CertificateStorageKeys = ''crypto/certificateStorage/keys''"
| "demo_ACTION CertificateStorageClear = ''crypto/certificateStorage/clear''"

definition demo_key :: "string \<Rightarrow> nat \<Rightarrow> CryptoKey" where
  "demo_key t n = \<lparr> key_type = t, key_algorithm = ''ECDSA'', key_extractable = True,
                    key_usages = [], key_object = n \<rparr>"

fun demo_ask_bytes :: "provider_call list \<Rightarrow> provider_call \<Rightarrow> error + bytes" where
  "demo_ask_bytes h (Ossl_exportKey f k) = Inr [of_nat (key_object k), 0x5A]"
| "demo_ask_bytes h (Ossl_digest alg raw) = Inr (rev raw)"
| "demo_ask_bytes h c = Inr [1, 2, 3]"

fun demo_ask_key :: "provider_call list \<Rightarrow> provider_call \<Rightarrow> error + CryptoKey" where
  "demo_ask_key h (Ossl_importKey f (JsonWebKey j) alg e us) =
     Inr (demo_key ''public'' (case j of (k, v) # _ \<Rightarrow> length v | [] \<Rightarrow> 0))"
| "demo_ask_key h (Subtle_importKey p f (JsonWebKey j) alg e us) = Inr (demo_key ''public'' (length h))"
| "demo_ask_key h c = Inr (demo_key ''secret'' (length h))"

fun demo_ask_keydata :: "provider_call list \<Rightarrow> provider_call \<Rightarrow> error + KeyData" where
  "demo_ask_keydata h (Subtle_exportKey p f (KeyItem k)) =
     (if f = ''jwk'' \<or> f = ''JWK'' then Inr (JsonWebKey [(''n'', replicate (key_object k) CHR ''x'')])
      else Inr (Buffer [of_nat (key_object k)]))"
| "demo_ask_keydata h c = Inl (ExternalError ''not a key'')"

definition demo_server :: "params \<Rightarrow> server_env" where
  "demo_server p = \<lparr>
     ACTION = demo_ACTION,
     importProto = (\<lambda>k a. Inr p),
     keyProto_importProto = (\<lambda>b. Inl (ExternalError ''no handle'')),
     item_exportProto = (\<lambda>h. Inr (map (\<lambda>c. of_nat (of_char c)) (proto_type h))),
     keyPair_exportProto = (\<lambda>priv pub. Inr [7]),
     info_exportProto = Inr [],
     ask_unit = (\<lambda>h c. Inr ()),
     ask_bool = (\<lambda>h c. Inr True),
     ask_bytes = demo_ask_bytes,
     ask_string = (\<lambda>h c. Inr ''index''),
     ask_strings = (\<lambda>h c. Inr []),
     ask_key = demo_ask_key,
     ask_key_or_null = (\<lambda>h c. Inr (Some (demo_key ''secret'' (length h)))),
     ask_keys = (\<lambda>h c. Inr (KeyPair (demo_key ''public'' (length h)) (demo_key ''private'' (length h)))),
     ask_cert = (\<lambda>h c. Inl (ExternalError ''no certificate'')),
     ask_keydata = demo_ask_keydata,
     ask_exported_cert = (\<lambda>h c. Inl (ExternalError ''no certificate'')),
     ask_prompt = (\<lambda>h. (''replied'', ''1234'')),
     random_byte = (\<lambda>h i. of_nat (length h)),
     JSON_stringify = (\<lambda>d. ''{}''),
     JSON_parse = (\<lambda>t. if t = ''{}'' then Inr [(''n'', ''x'')] else Inl (ExternalError ''Unexpected token'')),
     FromUtf8String = map (\<lambda>c. of_nat (of_char c)),
     ToUtf8String = (\<lambda>b. if b = [] then [] else ''{}''),
     ArrayStringConverter_set = (\<lambda>ks. Inr (map (\<lambda>k. of_nat (length k)) ks)) \<rparr>"

definition repeating_provider :: "params \<Rightarrow> server_env" where
  "repeating_provider p = (demo_server p)\<lparr>
     ask_keys := (\<lambda>h c. Inr (KeyPair (demo_key ''public'' 1) (demo_key ''private'' 2))) \<rparr>"

definition demo_session :: "nat \<Rightarrow> bool \<Rightarrow> bool \<Rightarrow> Session" where
  "demo_session n c a = \<lparr> session_id = n, cipher = (if c then Some n else None), authorized = a \<rparr>"

subsection \<open>A concrete client environment\<close>

text \<open>
  A codec and a cipher to run the client on: the envelope is serialised to the bytes of
  its \<open>actionId\<close>, the cipher is the identity, and a result frame \<open>[i, e, d\<^sub>1, \<dots>]\<close>
  parses to the result for \<open>actionId = i.toString()\<close> with an error when \<open>e \<noteq> 0\<close> and
  the data \<open>d\<^sub>1, \<dots>\<close>. \<open>failing_cipher\<close> is the same with a cipher whose \<open>encrypt\<close> fails.
\<close>

definition demo_result :: "bytes \<Rightarrow> error + bytes ResultProto" where
  "demo_result raw =
     (case raw of
        i # e # ds \<Rightarrow>
          Inr \<lparr> res_action = ''digest'', res_actionId = toString (unat i),
                res_error = (if e = 0 then [] else ''failed''), res_data = Some ds \<rparr>
      | _ \<Rightarrow> Inl (ExternalError ''malformed result''))"

definition demo_client :: client_env where
  "demo_client = \<lparr>
     action_exportProto = (\<lambda>a. Inr (map (\<lambda>c. of_nat (of_char c)) (actionId a))),
     cipher_encrypt = (\<lambda>n raw. Inr raw),
     message_exportProto = Inr,
     message_importProto = Inr,
     cipher_decrypt = (\<lambda>n raw. Inr raw),
     result_importProto = demo_result,
     handshake = Inr () \<rparr>"


subsection \<open>Predicates on client states\<close>


text \<open>
  A promise whose counter value has been given out and that is neither in a started
  chain nor on the stack is never settled, whatever happens later.
\<close>

definition abandoned :: "nat \<Rightarrow> client_state \<Rightarrow> bool" where
  "abandoned n s \<longleftrightarrow>
     n < messageCounter s \<and> map_of (chains s) n = None \<and> (\<forall>k. stack s k \<noteq> Some n)"

subsection \<open>Concrete inputs for the server\<close>

definition demo_alg :: AlgorithmProto where
  "demo_alg = AlgorithmProto False \<lparr> alg_name = ''ECDSA'', alg_public = [] \<rparr>"

definition demo_action :: "string \<Rightarrow> ActionProto" where
  "demo_action t = \<lparr> action = t, actionId = ''0'', payload = [] \<rparr>"

text \<open>A server whose registry holds one row: a public key of provider \<open>p1\<close> under the id \<open>abc\<close>.\<close>

definition one_key_registry :: server_state where
  "one_key_registry = server_init\<lparr> memoryStorage :=
     [new_ServiceCryptoItem ''abc'' (KeyItem (demo_key ''public'' 1)) ''p1''] \<rparr>"

definition generate_pair :: params where
  "generate_pair = GenerateKeyP ''p1'' demo_alg True [''sign'']"



fun is_token_event :: "server_event \<Rightarrow> bool" where
  "is_token_event (ProviderTokenEventProto info) = True"
| "is_token_event ProviderAuthorizedEventProto = False"

section \<open>Lemmas about the client\<close>

lemma toString_digit: "n < 10 \<Longrightarrow> toString n = [digit_char n]"
  by (simp add: toString.simps)

lemma settled_snoc: "settled n (es @ [e]) = settled n es + (if settles n e then 1 else 0)"
  by (simp add: settled_def)

lemma settled_emit:
  "settled n (effects (emit e s)) = settled n (effects s) + (if settles n e then 1 else 0)"
  by (simp add: emit_def settled_snoc)

lemma emit_fields [simp]:
  "stack (emit e s) = stack s" "chains (emit e s) = chains s"
  "messageCounter (emit e s) = messageCounter s" "readyState (emit e s) = readyState s"
  "ratchet (emit e s) = ratchet s"
  by (simp_all add: emit_def)













lemma onMessage_pending:
  assumes "result_importProto env m = Inr r" "stack s (res_actionId r) = Some n"
  shows "onMessage env m s =
     emit (if res_error r \<noteq> [] then Reject n (Error (res_error r)) else Resolve n (res_data r))
       (s\<lparr> stack := (stack s)(res_actionId r := None) \<rparr>)"
  using assms by (simp add: onMessage_def Let_def)

lemma onMessage_unsolicited:
  assumes "result_importProto env m = Inr r" "stack s (res_actionId r) = None"
  shows "onMessage env m s =
     emit (UnhandledRejection (TypeError
        (if res_error r \<noteq> [] then ''Cannot read property 'reject' of undefined''
         else ''Cannot read property 'resolve' of undefined''))) s"
proof -
  have "(stack s)(res_actionId r := None) = stack s"
    using assms(2) by (simp add: fun_upd_idem)
  then show ?thesis using assms by (simp add: onMessage_def Let_def)
qed


lemma abandoned_step:
  assumes "abandoned n s"
  shows "abandoned n (step env s ev) \<and> settled n (effects (step env s ev)) = settled n (effects s)"
proof (cases ev)
  case SocketOpen
  then show ?thesis using assms
    by (simp add: abandoned_def socket_onopen_def settled_emit split: sum.splits)
next
  case SocketError
  then show ?thesis using assms by (simp add: abandoned_def socket_onerror_def settled_emit)
next
  case (Send e d)
  then show ?thesis using assms
    by (auto simp: abandoned_def send_def settled_emit Let_def)
next
  case (RunChain c)
  show ?thesis
  proof (cases "map_of (chains s) c")
    case None
    then show ?thesis using assms RunChain by (simp add: run_chain_def)
  next
    case (Some d)
    then have cn: "c \<noteq> n" using assms by (auto simp: abandoned_def)
    have m: "map_of (filter (\<lambda>x. fst x \<noteq> c) (chains s)) n = None"
      using assms by (auto simp: abandoned_def map_of_eq_None_iff)
    show ?thesis using assms RunChain Some cn m
      by (auto simp: run_chain_def send_chain_def abandoned_def settled_emit split: sum.splits)
  qed
next
  case (SocketMessage f)
  have om: "abandoned n (onMessage env m s') \<and>
      settled n (effects (onMessage env m s')) = settled n (effects s')"
    if "abandoned n s'" for m s'
    using that
    by (auto simp: onMessage_def Let_def abandoned_def settled_emit split: sum.splits option.splits)
  have r: "abandoned n (s\<lparr> ratchet := q \<rparr>)" for q using assms by (simp add: abandoned_def)
  show ?thesis using assms SocketMessage om [OF r]
    by (auto simp: socket_onmessage_def settled_emit abandoned_def split: frame.splits sum.splits)
next
  case SocketClose
  then show ?thesis using assms by (simp add: abandoned_def socket_onclose_def settled_emit)
qed

lemma abandoned_forever:
  "abandoned n s \<Longrightarrow> settled n (effects (foldl (step env) s evs)) = settled n (effects s)"
  by (induction evs arbitrary: s) (simp_all add: abandoned_step)

section \<open>Lemmas about the server\<close>

lemma await_ret [simp]: "await (ret x) f = f x"
  by (simp add: await_def ret_def)

lemma await_throw [simp]: "await (throw e) f = throw e"
  by (simp add: await_def throw_def)

lemma await_settle_Inr [simp]: "await (settle (Inr x)) f = f x"
  by (simp add: await_def settle_def)

lemma await_settle_Inl [simp]: "await (settle (Inl e)) f = throw e"
  by (simp add: await_def settle_def throw_def)

lemma await_settle:
  "await (settle r) f s = (case r of Inl e \<Rightarrow> (Inl e, s) | Inr x \<Rightarrow> f x s)"
  by (simp add: await_def settle_def split: sum.splits)

lemma await_call:
  "await (call ask c) f s =
     (case ask (calls s) c of
        Inl e \<Rightarrow> (Inl e, s\<lparr> calls := calls s @ [c] \<rparr>)
      | Inr x \<Rightarrow> f x (s\<lparr> calls := calls s @ [c] \<rparr>))"
  by (simp add: await_def call_def split: sum.splits)

lemma await_push [simp]:
  "await (push x) f s = f () (s\<lparr> memoryStorage := memoryStorage s @ [x] \<rparr>)"
  by (simp add: await_def push_def)

text \<open>The walk of \<open>getItemFromStorage\<close> finds the first row that equals the handle.\<close>

lemma some_scan_find:
  "some_scan q None xs =
     find (\<lambda>x. item_id x = proto_id q \<and> providerID x = proto_providerID q \<and>
                item_type (item x) = proto_type q) xs"
  by (induction xs) simp_all

text \<open>\<open>getItemFromStorage\<close> never throws: with no row it returns \<open>undefined\<close>.\<close>

lemma getItemFromStorage_returns:
  "getItemFromStorage q s = (Inr (some_scan q None (memoryStorage s)), s)"
  by (simp add: getItemFromStorage_def module_crypto_defined_def Let_def)


text \<open>The \<open>switch\<close> runs the case of the first tag that equals \<open>action.action\<close>.\<close>

lemma onMessage_dispatch:
  "find (\<lambda>k. action a = ACTION env k) action_kinds = Some k \<Longrightarrow>
   LocalServer_onMessage env session a s =
     (case handle env k a s of
        (Inl e, s') \<Rightarrow> (Inl e, s')
      | (Inr d, s') \<Rightarrow> (Inr ((new_ResultProto a)\<lparr> res_data := d \<rparr>), s'))"
  by (simp add: LocalServer_onMessage_def Let_def await_def ret_def split: prod.splits sum.splits)

lemmas run_defs =
  LocalServer_onMessage_def action_kinds_def demo_server_def repeating_provider_def demo_action_def
  demo_alg_def demo_session_def server_init_def one_key_registry_def new_ResultProto_def
  new_ServiceCryptoItem_def toProto_def demo_key_def decode_def getCrypto_def bad_params_def
  stored_item_def getItemFromStorage_def module_crypto_defined_def dot_item_def
  await_def call_def settle_def push_def remember_key_def GetIdentity_def ToHex_def hex_digit_def
  quoted_def ret_def throw_def

subsection \<open>\<open>ToHex\<close> is an encoding\<close>

lemma length_ToHex: "length (ToHex bs) = 2 * length bs"
  by (induction bs) (simp_all add: ToHex_def)

lemma hex_digit_mem: "d < 16 \<Longrightarrow> hex_digit d \<in> set ''0123456789abcdef''"
  unfolding hex_digit_def by (rule nth_mem) simp

lemma unat_byte_div: "unat (b :: 8 word) div 16 < 16"
proof -
  have "unat b < 2 ^ LENGTH(8)" by (rule unsigned_less)
  then show ?thesis by simp
qed

lemma ToHex_chars: "set (ToHex bs) \<subseteq> set ''0123456789abcdef''"
proof (induction bs)
  case Nil
  show ?case by (simp add: ToHex_def)
next
  case (Cons b bs)
  have "hex_digit (unat b div 16) \<in> set ''0123456789abcdef''"
    by (rule hex_digit_mem [OF unat_byte_div])
  moreover have "hex_digit (unat b mod 16) \<in> set ''0123456789abcdef''"
    by (rule hex_digit_mem) simp
  ultimately show ?case using Cons unfolding ToHex_def by simp
qed

lemma hex_digit_inj: "a < 16 \<Longrightarrow> b < 16 \<Longrightarrow> hex_digit a = hex_digit b \<Longrightarrow> a = b"
proof -
  assume a: "a < 16" and b: "b < 16" and e: "hex_digit a = hex_digit b"
  have d: "distinct ''0123456789abcdef''" by simp
  have l: "length ''0123456789abcdef'' = 16" by simp
  show "a = b"
    using e a b unfolding hex_digit_def
    by (simp only: nth_eq_iff_index_eq [OF d] l)
qed

lemma ToHex_inj: "ToHex a = ToHex b \<Longrightarrow> a = b"
proof (induction a arbitrary: b)
  case Nil
  then have "length (ToHex b) = 0" by (simp add: ToHex_def)
  then show ?case by (simp add: length_ToHex)
next
  case (Cons x xs)
  have "length (ToHex b) = 2 * Suc (length xs)"
    using Cons.prems length_ToHex [of "x # xs"] by simp
  then obtain y ys where b: "b = y # ys"
    by (cases b) (simp_all add: length_ToHex)
  from Cons.prems b have hi: "hex_digit (unat x div 16) = hex_digit (unat y div 16)"
    and lo: "hex_digit (unat x mod 16) = hex_digit (unat y mod 16)"
    and rest: "ToHex xs = ToHex ys"
    by (simp_all add: ToHex_def)
  have "unat x div 16 = unat y div 16"
    by (rule hex_digit_inj [OF unat_byte_div unat_byte_div hi])
  moreover have "unat x mod 16 = unat y mod 16"
    by (rule hex_digit_inj [OF _ _ lo]) simp_all
  ultimately have "unat x = unat y"
    by (metis div_mult_mod_eq)
  then have "x = y" by (simp add: word_unat_eq_iff)
  with Cons.IH [OF rest] b show ?case by simp
qed

subsection \<open>The strings that \<open>toLowerCase\<close> sends to \<open>jwk\<close>\<close>







subsection \<open>\<open>GetIdentity\<close> and the cases that store a key\<close>

lemma GetIdentity_not_public:
  "key_type k \<noteq> ''public'' \<Longrightarrow>
   GetIdentity env k p s =
     (Inr (ToHex (map (random_byte env (calls s)) [0..<32])),
      s\<lparr> calls := calls s @ [Ossl_getRandomValues 32] \<rparr>)"
  by (simp add: GetIdentity_def)

lemma GetIdentity_public:
  assumes "key_type k = ''public''"
    and "ask_keydata env (calls s) (Subtle_exportKey p ''jwk'' (KeyItem k)) = Inr jwk"
    and "ask_key env (calls s @ [Subtle_exportKey p ''jwk'' (KeyItem k)])
           (Ossl_importKey ''jwk'' jwk (key_algorithm k) True (key_usages k)) = Inr osslKey"
    and "ask_bytes env (calls s @ [Subtle_exportKey p ''jwk'' (KeyItem k),
             Ossl_importKey ''jwk'' jwk (key_algorithm k) True (key_usages k)])
           (Ossl_exportKey ''spki'' osslKey) = Inr spki"
    and "ask_bytes env (calls s @ [Subtle_exportKey p ''jwk'' (KeyItem k),
             Ossl_importKey ''jwk'' jwk (key_algorithm k) True (key_usages k),
             Ossl_exportKey ''spki'' osslKey])
           (Ossl_digest ''SHA-256'' spki) = Inr hash"
  shows "GetIdentity env k p s =
     (Inr (ToHex hash),
      s\<lparr> calls := calls s @ [Subtle_exportKey p ''jwk'' (KeyItem k),
             Ossl_importKey ''jwk'' jwk (key_algorithm k) True (key_usages k),
             Ossl_exportKey ''spki'' osslKey, Ossl_digest ''SHA-256'' spki] \<rparr>)"
  using assms by (simp add: GetIdentity_def await_call ret_def)

text \<open>\<open>GetIdentity\<close> leaves the registry and the sessions alone and only adds calls.\<close>

lemma GetIdentity_frame:
  "memoryStorage (snd (GetIdentity env k p s)) = memoryStorage s \<and>
   sessions (snd (GetIdentity env k p s)) = sessions s \<and>
   (\<exists>rest. calls (snd (GetIdentity env k p s)) = calls s @ rest)"
  by (simp add: GetIdentity_def await_call ret_def split: sum.splits)

lemma remember_key_calls:
  "\<exists>rest. calls (snd (remember_key env k p s)) = calls s @ rest"
proof -
  obtain r s1 where g: "GetIdentity env k p s = (r, s1)" by (cases "GetIdentity env k p s")
  obtain rest where c: "calls s1 = calls s @ rest"
    using GetIdentity_frame [of env k p s] g by auto
  show ?thesis
    using g c
    by (cases r; cases "item_exportProto env (toProto (new_ServiceCryptoItem (projr r) (KeyItem k) p))")
       (simp_all add: remember_key_def await_def Let_def push_def settle_def ret_def)
qed

lemma take_calls_grow:
  assumes "\<exists>rest. calls s' = (h @ cs) @ rest"
  shows "take (length h + length cs) (calls s') = h @ cs"
  using assms by auto

subsection \<open>The key-storage cases\<close>

text \<open>
  Whatever the provider and the state: once the action is decoded and the provider is
  there, \<open>KeyStorage.Clear\<close> makes the call \<open>certStorage.clear()\<close> and no other, and the
  third argument of \<open>keyStorage.getItem\<close> in \<open>KeyStorage.GetItem\<close> is \<open>null\<close> or \<open>undefined\<close>.
\<close>

lemma KeyStorageClear_calls:
  assumes "importProto env KeyStorageClear a = Inr (ProviderP p)"
    and "ask_unit env (calls s) (Provider_getCrypto p) = Inr ()"
  shows "calls (snd (case_KeyStorageClear env a s)) =
     calls s @ [Provider_getCrypto p, CertStorage_clear p]"
  using assms
  by (simp add: case_KeyStorageClear_def decode_def getCrypto_def await_call ret_def
      split: sum.splits)

lemma KeyStorageGetItem_calls:
  assumes d: "importProto env KeyStorageGetItem a = Inr (GetItemP p key alg keyUsages)"
    and c: "ask_unit env (calls s) (Provider_getCrypto p) = Inr ()"
  shows "take (length (calls s) + 2) (calls (snd (case_KeyStorageGetItem env a s))) =
     calls s @ [Provider_getCrypto p,
                KeyStorage_getItem p key (if isEmpty alg then None else Some alg) None]"
proof -
  let ?c = "KeyStorage_getItem p key (if isEmpty alg then None else Some alg) None"
  let ?s1 = "s\<lparr> calls := calls s @ [Provider_getCrypto p] \<rparr>"
  let ?s2 = "s\<lparr> calls := calls s @ [Provider_getCrypto p, ?c] \<rparr>"
  have u: "(if keyUsages \<noteq> None then None else keyUsages) = None" by simp
  have eq: "case_KeyStorageGetItem env a s =
      (case ask_key_or_null env (calls ?s1) ?c of
         Inl e \<Rightarrow> (Inl e, ?s2)
       | Inr None \<Rightarrow> (Inl (Error (''Cannot get key by identity '' @ quoted key)), ?s2)
       | Inr (Some k) \<Rightarrow> remember_key env k p ?s2)"
    unfolding case_KeyStorageGetItem_def decode_def d getCrypto_def u
    by (simp add: await_call c throw_def split: sum.splits option.splits)
  have "\<exists>rest. calls (snd (case_KeyStorageGetItem env a s)) =
      (calls s @ [Provider_getCrypto p, ?c]) @ rest"
  proof (cases "ask_key_or_null env (calls ?s1) ?c")
    case (Inl e)
    then show ?thesis unfolding eq by simp
  next
    case (Inr found)
    show ?thesis
    proof (cases found)
      case None
      then show ?thesis unfolding eq using Inr by simp
    next
      case (Some k)
      then show ?thesis unfolding eq using Inr remember_key_calls [of env k p ?s2] by simp
    qed
  qed
  from take_calls_grow [OF this] show ?thesis by simp
qed

subsection \<open>\<open>ExportKey\<close> and \<open>ImportKey\<close>\<close>



subsection \<open>The token listener\<close>

lemma token_sessions_fst:
  "map fst (token_sessions ss info) = filter (\<lambda>x. cipher x \<noteq> None \<and> authorized x) ss"
  by (induction ss arbitrary: info) (simp_all add: Let_def)

lemma token_sessions_snd:
  "list_all is_token_event (map snd (token_sessions ss info))"
  by (induction ss arbitrary: info) (simp_all add: Let_def)

section \<open>Claims about the client\<close>




text \<open>
  Claim C8, as the code has it. For a frame that parses to a result: when an entry is
  pending under its \<open>actionId\<close>, the entry is removed and \<open>reject\<close> is called with
  \<open>Error(error)\<close> if the error is not empty, \<open>resolve\<close> with the data otherwise; when no
  entry is pending, no event is emitted, no promise is settled, the stack stays as it
  is, and the handler ends in a \<open>TypeError\<close> that nothing catches.
\<close>

theorem onMessage_pops_pending_entry:
  "result_importProto env m = Inr r \<Longrightarrow>
   (stack s (res_actionId r) = Some n \<longrightarrow>
      onMessage env m s =
        s\<lparr> stack := (stack s)(res_actionId r := None),
           effects := effects s @
             [if res_error r \<noteq> [] then Reject n (Error (res_error r)) else Resolve n (res_data r)] \<rparr>) \<and>
   (stack s (res_actionId r) = None \<longrightarrow>
      filter is_Emit (effects (onMessage env m s)) = filter is_Emit (effects s) \<and>
      settled n (effects (onMessage env m s)) = settled n (effects s) \<and>
      stack (onMessage env m s) = stack s \<and>
      (\<exists>t. effects (onMessage env m s) = effects s @ [UnhandledRejection (TypeError t)]))"
proof (intro conjI impI)
  assume r: "result_importProto env m = Inr r" and p: "stack s (res_actionId r) = Some n"
  show "onMessage env m s =
        s\<lparr> stack := (stack s)(res_actionId r := None),
           effects := effects s @
             [if res_error r \<noteq> [] then Reject n (Error (res_error r)) else Resolve n (res_data r)] \<rparr>"
    unfolding onMessage_pending [OF r p] by (simp add: emit_def)
next
  assume r: "result_importProto env m = Inr r" and p: "stack s (res_actionId r) = None"
  note u = onMessage_unsolicited [OF r p]
  show "filter is_Emit (effects (onMessage env m s)) = filter is_Emit (effects s)"
    unfolding u by (simp add: emit_def)
  show "settled n (effects (onMessage env m s)) = settled n (effects s)"
    unfolding u by (simp add: settled_emit)
  show "stack (onMessage env m s) = stack s"
    unfolding u by simp
  show "\<exists>t. effects (onMessage env m s) = effects s @ [UnhandledRejection (TypeError t)]"
    unfolding u by (simp add: emit_def)
qed

text \<open>
  Claim C8, two instances: the frame \<open>[0, 1, 7]\<close> carries an error for the pending
  \<open>actionId\<close> \<open>0\<close> and rejects it; the frame \<open>[9, 0, 1]\<close> has no pending entry.
\<close>

theorem onMessage_pops_pending_entry_witness:
  "effects (onMessage demo_client [0, 1, 7]
      (run demo_client [SocketOpen, Send ''digest'' None, RunChain 0])) =
     [Emit ''listening'', SocketSend [48], Reject 0 (Error ''failed'')] \<and>
   stack (onMessage demo_client [9, 0, 1]
      (run demo_client [SocketOpen, Send ''digest'' None, RunChain 0])) ''0'' = Some 0"
proof -
  let ?s = "run demo_client [SocketOpen, Send ''digest'' None, RunChain 0]"
  have s: "?s = \<lparr> readyState = opened, messageCounter = 1, stack = [''0'' \<mapsto> 0], ratchet = 1,
      chains = [], effects = [Emit ''listening'', SocketSend [48]] \<rparr>"
    by (simp add: run_def demo_client_def client_init_def socket_onopen_def send_def
        run_chain_def send_chain_def emit_def toString_digit digit_char_def)
  have r1: "result_importProto demo_client [0, 1, 7] =
     Inr \<lparr> res_action = ''digest'', res_actionId = ''0'', res_error = ''failed'', res_data = Some [7] \<rparr>"
    by (simp add: demo_client_def demo_result_def toString_digit digit_char_def)
  have r2: "result_importProto demo_client [9, 0, 1] =
     Inr \<lparr> res_action = ''digest'', res_actionId = ''9'', res_error = [], res_data = Some [1] \<rparr>"
    by (simp add: demo_client_def demo_result_def toString_digit digit_char_def)
  show ?thesis
    using onMessage_pops_pending_entry [OF r1, of ?s 0] onMessage_pops_pending_entry [OF r2, of ?s 0]
    unfolding s by simp
qed

text \<open>
  Claim C8 as stated fails on its last part: the frame \<open>[9, 0, 1]\<close>, a result for an
  \<open>actionId\<close> that is not pending, reaches no listener. The only event is the
  \<open>listening\<close> of the open; the frame leaves an unhandled \<open>TypeError\<close>.
\<close>

theorem onMessage_unsolicited_counterexample:
  "stack (run demo_client [SocketOpen]) ''9'' = None \<and>
   effects (run demo_client [SocketOpen, SocketMessage (Binary [9, 0, 1])]) =
     [Emit ''listening'',
      UnhandledRejection (TypeError ''Cannot read property 'resolve' of undefined'')] \<and>
   filter is_Emit (effects (run demo_client [SocketOpen, SocketMessage (Binary [9, 0, 1])])) =
     filter is_Emit (effects (run demo_client [SocketOpen]))"
  by (simp add: run_def demo_client_def demo_result_def client_init_def socket_onopen_def
      socket_onmessage_def onMessage_def emit_def toString_digit digit_char_def)
section \<open>Claims about the server\<close>

text \<open>
  Claim C2 says that a lookup which matches no row raises
  \<open>Cannot get CryptoItem by ID '<id>'\<close>. The code does not: the \<open>throw\<close> stands under
  \<open>if (!crypto)\<close>, which is never true. Here the registry holds the key \<open>abc\<close> of provider
  \<open>p1\<close> and the handle names provider \<open>p2\<close>: \<open>getItemFromStorage\<close> returns \<open>undefined\<close>,
  and a \<open>Sign\<close> action with that handle ends in the \<open>TypeError\<close> of reading \<open>.item\<close>.
\<close>

theorem getItemFromStorage_miss_is_undefined:
  "getItemFromStorage \<lparr> proto_id = ''abc'', proto_providerID = ''p2'', proto_type = ''public'' \<rparr>
     one_key_registry = (Inr None, one_key_registry) \<and>
   fst (LocalServer_onMessage
     (demo_server (KeyDataP ''p2'' demo_alg
        \<lparr> proto_id = ''abc'', proto_providerID = ''p2'', proto_type = ''public'' \<rparr> [1]))
     (demo_session 1 True True) (demo_action ''crypto/subtle/sign'') one_key_registry) =
     Inl (TypeError ''Cannot read property 'item' of undefined'')"
  by (simp add: getItemFromStorage_returns run_defs case_Sign_def)

text \<open>
  Claim C3 says that \<open>KeyStorage.Clear\<close> clears the key storage and leaves the
  certificate storage alone. The code does the opposite: the calls of the action are
  \<open>getCrypto\<close> and \<open>certStorage.clear()\<close>, and \<open>keyStorage.clear()\<close> is not among them.
\<close>

theorem KeyStorageClear_clears_certStorage:
  "LocalServer_onMessage (demo_server (ProviderP ''p1'')) (demo_session 1 True True)
     (demo_action ''crypto/keyStorage/clear'') server_init =
   (Inr \<lparr> res_action = ''crypto/keyStorage/clear'', res_actionId = ''0'', res_error = [],
          res_data = None \<rparr>,
    server_init\<lparr> calls := [Provider_getCrypto ''p1'', CertStorage_clear ''p1''] \<rparr>)"
  by (simp add: run_defs case_KeyStorageClear_def)

text \<open>
  Claim C4 says that the usages of a \<open>KeyStorage.GetItem\<close> action are passed to
  \<open>keyStorage.getItem\<close>. The code passes \<open>null\<close> in their place: with the usages
  \<open>["sign"]\<close> the call is \<open>getItem("key1", algorithm, null)\<close>.
\<close>

theorem KeyStorageGetItem_drops_keyUsages:
  "calls (snd (LocalServer_onMessage
     (demo_server (GetItemP ''p1'' ''key1'' demo_alg (Some [''sign''])))
     (demo_session 1 True True) (demo_action ''crypto/keyStorage/getItem'') server_init)) =
   [Provider_getCrypto ''p1'', KeyStorage_getItem ''p1'' ''key1'' (Some demo_alg) None,
    Ossl_getRandomValues 32]"
  by (simp add: run_defs case_KeyStorageGetItem_def)

text \<open>
  Claim C5. An action whose tag is the tag of no case makes \<open>onMessage\<close> throw
  \<open>Unknown action '<tag>'\<close> with the state of the server, its sessions among it, as it
  was; the reply that the connection layer makes of it carries that message as its
  error and no data.
\<close>

theorem unknown_action_rejected:
  "action a \<notin> ACTION env ` set action_kinds \<Longrightarrow>
   LocalServer_onMessage env session a s =
     (Inl (Error (''Unknown action '' @ [CHR 0x27] @ action a @ [CHR 0x27])), s) \<and>
   on_message env session a s =
     (\<lparr> res_action = action a, res_actionId = actionId a,
        res_error = ''Unknown action '' @ [CHR 0x27] @ action a @ [CHR 0x27], res_data = None \<rparr>, s)"
proof -
  assume "action a \<notin> ACTION env ` set action_kinds"
  then have "find (\<lambda>k. action a = ACTION env k) action_kinds = None"
    by (auto simp: find_None_iff)
  then have r: "LocalServer_onMessage env session a s =
     (Inl (Error (''Unknown action '' @ [CHR 0x27] @ action a @ [CHR 0x27])), s)"
    by (simp add: LocalServer_onMessage_def Let_def throw_def quoted_def)
  show ?thesis
    unfolding on_message_def r by (simp add: Server_reply_def new_ResultProto_def)
qed

text \<open>Claim C5, an instance: the action \<open>Nope\<close> on a server with one session.\<close>

theorem unknown_action_rejected_witness:
  "on_message (demo_server (ProviderP ''p1'')) (demo_session 1 True True)
     \<lparr> action = ''Nope'', actionId = ''5'', payload = [] \<rparr>
     (server_init\<lparr> sessions := [demo_session 1 True True] \<rparr>) =
   (\<lparr> res_action = ''Nope'', res_actionId = ''5'',
      res_error = ''Unknown action '' @ [CHR 0x27] @ ''Nope'' @ [CHR 0x27], res_data = None \<rparr>,
    server_init\<lparr> sessions := [demo_session 1 True True] \<rparr>)"
proof -
  have "action \<lparr> action = ''Nope'', actionId = ''5'', payload = [] \<rparr> \<notin>
      ACTION (demo_server (ProviderP ''p1'')) ` set action_kinds"
    by (simp add: demo_server_def action_kinds_def)
  from unknown_action_rejected [OF this] show ?thesis by simp
qed

text \<open>
  Claim C6, as the code has it. When \<open>GenerateKey\<close> gets a pair from the provider and
  \<open>GetIdentity\<close> of the public key gives \<open>t\<close>, the two handles that are encoded into the
  reply both carry the id \<open>t\<close>, and the state in which the reply is made holds the two
  rows, public key first, at the end of the registry. Nothing compares \<open>t\<close> with the
  ids given out before.
\<close>

theorem GenerateKey_pair_shares_thumbprint:
  "importProto env GenerateKey a = Inr (GenerateKeyP p alg ext us) \<Longrightarrow>
   ask_unit env (calls s) (Provider_getCrypto p) = Inr () \<Longrightarrow>
   ask_keys env (calls s @ [Provider_getCrypto p]) (Subtle_generateKey p alg ext us) =
     Inr (KeyPair pub priv) \<Longrightarrow>
   GetIdentity env pub p
     (s\<lparr> calls := calls s @ [Provider_getCrypto p, Subtle_generateKey p alg ext us] \<rparr>) =
     (Inr t, s1) \<Longrightarrow>
   case_GenerateKey env a s =
     (case keyPair_exportProto env
             \<lparr> proto_id = t, proto_providerID = p, proto_type = key_type priv \<rparr>
             \<lparr> proto_id = t, proto_providerID = p, proto_type = key_type pub \<rparr> of
        Inl e \<Rightarrow> Inl e
      | Inr d \<Rightarrow> Inr (Some (Buffer d)),
      s1\<lparr> memoryStorage := memoryStorage s @
             [\<lparr> item_id = t, item = KeyItem pub, providerID = p \<rparr>,
              \<lparr> item_id = t, item = KeyItem priv, providerID = p \<rparr>] \<rparr>)"
proof -
  assume d: "importProto env GenerateKey a = Inr (GenerateKeyP p alg ext us)"
    and c: "ask_unit env (calls s) (Provider_getCrypto p) = Inr ()"
    and g: "ask_keys env (calls s @ [Provider_getCrypto p]) (Subtle_generateKey p alg ext us) =
      Inr (KeyPair pub priv)"
    and i: "GetIdentity env pub p
      (s\<lparr> calls := calls s @ [Provider_getCrypto p, Subtle_generateKey p alg ext us] \<rparr>) = (Inr t, s1)"
  have m: "memoryStorage s1 = memoryStorage s"
    using GetIdentity_frame [of env pub p
        "s\<lparr> calls := calls s @ [Provider_getCrypto p, Subtle_generateKey p alg ext us] \<rparr>"] i
    by simp
  have step: "await (GetIdentity env pub p) f
      (s\<lparr> calls := calls s @ [Provider_getCrypto p, Subtle_generateKey p alg ext us] \<rparr>) = f t s1" for f
    using i by (simp add: await_def)
  show ?thesis
    unfolding case_GenerateKey_def decode_def d getCrypto_def
    by (simp add: await_call c g step Let_def new_ServiceCryptoItem_def toProto_def m
        await_settle ret_def split: sum.splits)
qed

text \<open>
  Claim C6, an instance: the pair of the concrete provider gets the id \<open>5a01\<close> in both
  rows.
\<close>

theorem GenerateKey_pair_shares_thumbprint_witness:
  "case_GenerateKey (demo_server generate_pair) (demo_action ''crypto/subtle/generateKey'') server_init =
     (Inr (Some (Buffer [7])),
      \<lparr> sessions = [],
        memoryStorage =
          [\<lparr> item_id = ''5a01'', item = KeyItem (demo_key ''public'' 1), providerID = ''p1'' \<rparr>,
           \<lparr> item_id = ''5a01'', item = KeyItem (demo_key ''private'' 1), providerID = ''p1'' \<rparr>],
        calls =
          [Provider_getCrypto ''p1'', Subtle_generateKey ''p1'' demo_alg True [''sign''],
           Subtle_exportKey ''p1'' ''jwk'' (KeyItem (demo_key ''public'' 1)),
           Ossl_importKey ''jwk'' (JsonWebKey [(''n'', ''x'')]) ''ECDSA'' True [],
           Ossl_exportKey ''spki'' (demo_key ''public'' 1),
           Ossl_digest ''SHA-256'' [1, 0x5A]],
        sent = [] \<rparr>)"
proof -
  let ?e = "demo_server generate_pair"
  let ?a = "demo_action ''crypto/subtle/generateKey''"
  have d: "importProto ?e GenerateKey ?a = Inr (GenerateKeyP ''p1'' demo_alg True [''sign''])"
    by (simp add: demo_server_def generate_pair_def)
  have c: "ask_unit ?e (calls server_init) (Provider_getCrypto ''p1'') = Inr ()"
    by (simp add: demo_server_def)
  have g: "ask_keys ?e (calls server_init @ [Provider_getCrypto ''p1''])
      (Subtle_generateKey ''p1'' demo_alg True [''sign'']) =
      Inr (KeyPair (demo_key ''public'' 1) (demo_key ''private'' 1))"
    by (simp add: demo_server_def server_init_def)
  have i: "GetIdentity ?e (demo_key ''public'' 1) ''p1''
      (server_init\<lparr> calls := calls server_init @
         [Provider_getCrypto ''p1'', Subtle_generateKey ''p1'' demo_alg True [''sign'']] \<rparr>) =
      (Inr ''5a01'',
       \<lparr> sessions = [], memoryStorage = [],
         calls =
          [Provider_getCrypto ''p1'', Subtle_generateKey ''p1'' demo_alg True [''sign''],
           Subtle_exportKey ''p1'' ''jwk'' (KeyItem (demo_key ''public'' 1)),
           Ossl_importKey ''jwk'' (JsonWebKey [(''n'', ''x'')]) ''ECDSA'' True [],
           Ossl_exportKey ''spki'' (demo_key ''public'' 1),
           Ossl_digest ''SHA-256'' [1, 0x5A]],
         sent = [] \<rparr>)"
    by (simp add: GetIdentity_def demo_server_def server_init_def demo_key_def await_def call_def
        ret_def ToHex_def hex_digit_def)
  show ?thesis
    using GenerateKey_pair_shares_thumbprint [OF d c g i]
    by (simp add: demo_server_def server_init_def)
qed

text \<open>
  Claim C6 as stated fails on its last part. With a provider that generates the same
  pair again, two \<open>GenerateKey\<close> actions in a row both succeed, and the id of the second
  pair, \<open>5a01\<close>, is the id of the first.
\<close>

theorem GenerateKey_id_repeats_counterexample:
  "fst (LocalServer_onMessage (repeating_provider generate_pair) (demo_session 1 True True)
         (demo_action ''crypto/subtle/generateKey'') server_init) =
     Inr \<lparr> res_action = ''crypto/subtle/generateKey'', res_actionId = ''0'', res_error = [],
           res_data = Some (Buffer [7]) \<rparr> \<and>
   map item_id (memoryStorage (snd (LocalServer_onMessage (repeating_provider generate_pair)
       (demo_session 1 True True) (demo_action ''crypto/subtle/generateKey'') server_init))) =
     [''5a01'', ''5a01''] \<and>
   fst (LocalServer_onMessage (repeating_provider generate_pair) (demo_session 1 True True)
         (demo_action ''crypto/subtle/generateKey'')
         (snd (LocalServer_onMessage (repeating_provider generate_pair) (demo_session 1 True True)
            (demo_action ''crypto/subtle/generateKey'') server_init))) =
     Inr \<lparr> res_action = ''crypto/subtle/generateKey'', res_actionId = ''0'', res_error = [],
           res_data = Some (Buffer [7]) \<rparr> \<and>
   map item_id (memoryStorage (snd (LocalServer_onMessage (repeating_provider generate_pair)
       (demo_session 1 True True) (demo_action ''crypto/subtle/generateKey'')
       (snd (LocalServer_onMessage (repeating_provider generate_pair) (demo_session 1 True True)
          (demo_action ''crypto/subtle/generateKey'') server_init))))) =
     [''5a01'', ''5a01'', ''5a01'', ''5a01'']"
  by (simp add: run_defs generate_pair_def case_GenerateKey_def)

text \<open>
  Claim C7. For a public key, when the four steps succeed (export as JWK from the
  provider of the key, import into the software provider, export as SPKI, SHA-256),
  \<open>GetIdentity\<close> returns the hash in hexadecimal, having made exactly these four calls.
  For any other key it returns the hexadecimal form, 64 characters, of 32 bytes taken
  from the random source of the software provider at that moment.
\<close>

theorem GetIdentity_thumbprint:
  "(key_type k = ''public'' \<longrightarrow>
      ask_keydata env (calls s) (Subtle_exportKey p ''jwk'' (KeyItem k)) = Inr jwk \<longrightarrow>
      ask_key env (calls s @ [Subtle_exportKey p ''jwk'' (KeyItem k)])
        (Ossl_importKey ''jwk'' jwk (key_algorithm k) True (key_usages k)) = Inr osslKey \<longrightarrow>
      ask_bytes env (calls s @ [Subtle_exportKey p ''jwk'' (KeyItem k),
          Ossl_importKey ''jwk'' jwk (key_algorithm k) True (key_usages k)])
        (Ossl_exportKey ''spki'' osslKey) = Inr spki \<longrightarrow>
      ask_bytes env (calls s @ [Subtle_exportKey p ''jwk'' (KeyItem k),
          Ossl_importKey ''jwk'' jwk (key_algorithm k) True (key_usages k),
          Ossl_exportKey ''spki'' osslKey])
        (Ossl_digest ''SHA-256'' spki) = Inr hash \<longrightarrow>
      fst (GetIdentity env k p s) = Inr (ToHex hash) \<and>
      calls (snd (GetIdentity env k p s)) =
        calls s @ [Subtle_exportKey p ''jwk'' (KeyItem k),
          Ossl_importKey ''jwk'' jwk (key_algorithm k) True (key_usages k),
          Ossl_exportKey ''spki'' osslKey, Ossl_digest ''SHA-256'' spki]) \<and>
   (key_type k \<noteq> ''public'' \<longrightarrow>
      fst (GetIdentity env k p s) = Inr (ToHex (map (random_byte env (calls s)) [0..<32])) \<and>
      calls (snd (GetIdentity env k p s)) = calls s @ [Ossl_getRandomValues 32] \<and>
      length (map (random_byte env (calls s)) [0..<32]) = 32 \<and>
      length (ToHex (map (random_byte env (calls s)) [0..<32])) = 64)"
proof (intro conjI impI)
  assume "key_type k \<noteq> ''public''"
  note n = GetIdentity_not_public [OF this, of env p s]
  show "fst (GetIdentity env k p s) = Inr (ToHex (map (random_byte env (calls s)) [0..<32]))"
    unfolding n by (simp only: fst_conv)
  show "calls (snd (GetIdentity env k p s)) = calls s @ [Ossl_getRandomValues 32]"
    unfolding n by simp
  show "length (map (random_byte env (calls s)) [0..<32]) = 32"
    by simp
  show "length (ToHex (map (random_byte env (calls s)) [0..<32])) = 64"
    by (simp add: length_ToHex)
next
  assume a: "key_type k = ''public''"
    "ask_keydata env (calls s) (Subtle_exportKey p ''jwk'' (KeyItem k)) = Inr jwk"
    "ask_key env (calls s @ [Subtle_exportKey p ''jwk'' (KeyItem k)])
        (Ossl_importKey ''jwk'' jwk (key_algorithm k) True (key_usages k)) = Inr osslKey"
    "ask_bytes env (calls s @ [Subtle_exportKey p ''jwk'' (KeyItem k),
          Ossl_importKey ''jwk'' jwk (key_algorithm k) True (key_usages k)])
        (Ossl_exportKey ''spki'' osslKey) = Inr spki"
    "ask_bytes env (calls s @ [Subtle_exportKey p ''jwk'' (KeyItem k),
          Ossl_importKey ''jwk'' jwk (key_algorithm k) True (key_usages k),
          Ossl_exportKey ''spki'' osslKey])
        (Ossl_digest ''SHA-256'' spki) = Inr hash"
  note pk = GetIdentity_public [OF a]
  show "fst (GetIdentity env k p s) = Inr (ToHex hash)"
    unfolding pk by simp
  show "calls (snd (GetIdentity env k p s)) =
        calls s @ [Subtle_exportKey p ''jwk'' (KeyItem k),
          Ossl_importKey ''jwk'' jwk (key_algorithm k) True (key_usages k),
          Ossl_exportKey ''spki'' osslKey, Ossl_digest ''SHA-256'' spki]"
    unfolding pk by simp
qed

text \<open>
  Claim C7, two instances: the public key number 3 of the concrete provider has the
  thumbprint \<open>5a03\<close>; for a private key the only call is the one for 32 random bytes.
\<close>

theorem GetIdentity_thumbprint_witness:
  "fst (GetIdentity (demo_server (ProviderP ''p1'')) (demo_key ''public'' 3) ''p1'' server_init) =
     Inr ''5a03'' \<and>
   length (ToHex (map (random_byte (demo_server (ProviderP ''p1'')) (calls server_init)) [0..<32])) = 64 \<and>
   calls (snd (GetIdentity (demo_server (ProviderP ''p1'')) (demo_key ''private'' 4) ''p1'' server_init)) =
     [Ossl_getRandomValues 32]"
proof -
  let ?e = "demo_server (ProviderP ''p1'')"
  let ?k = "demo_key ''public'' 3"
  have t: "key_type ?k = ''public''" by (simp add: demo_key_def)
  have h1: "ask_keydata ?e (calls server_init) (Subtle_exportKey ''p1'' ''jwk'' (KeyItem ?k)) =
      Inr (JsonWebKey [(''n'', ''xxx'')])"
    by (simp add: demo_server_def demo_key_def numeral_3_eq_3)
  have h2: "ask_key ?e (calls server_init @ [Subtle_exportKey ''p1'' ''jwk'' (KeyItem ?k)])
      (Ossl_importKey ''jwk'' (JsonWebKey [(''n'', ''xxx'')]) (key_algorithm ?k) True (key_usages ?k)) =
      Inr ?k"
    by (simp add: demo_server_def demo_key_def)
  have h3: "ask_bytes ?e (calls server_init @ [Subtle_exportKey ''p1'' ''jwk'' (KeyItem ?k),
        Ossl_importKey ''jwk'' (JsonWebKey [(''n'', ''xxx'')]) (key_algorithm ?k) True (key_usages ?k)])
      (Ossl_exportKey ''spki'' ?k) = Inr [3, 0x5A]"
    by (simp add: demo_server_def demo_key_def)
  have h4: "ask_bytes ?e (calls server_init @ [Subtle_exportKey ''p1'' ''jwk'' (KeyItem ?k),
        Ossl_importKey ''jwk'' (JsonWebKey [(''n'', ''xxx'')]) (key_algorithm ?k) True (key_usages ?k),
        Ossl_exportKey ''spki'' ?k])
      (Ossl_digest ''SHA-256'' [3, 0x5A]) = Inr [0x5A, 3]"
    by (simp add: demo_server_def)
  have hex: "ToHex [0x5A, 3] = ''5a03''"
    by (simp add: ToHex_def hex_digit_def)
  have priv: "key_type (demo_key ''private'' 4) \<noteq> ''public''" by (simp add: demo_key_def)
  have c0: "calls server_init = []" by (simp add: server_init_def)
  from GetIdentity_thumbprint [of ?k ?e server_init "''p1''" "JsonWebKey [(''n'', ''xxx'')]" ?k
      "[3, 0x5A]" "[0x5A, 3]"] t h1 h2 h3 h4
  have a: "fst (GetIdentity ?e ?k ''p1'' server_init) = Inr (ToHex [0x5A, 3])" by blast
  from GetIdentity_thumbprint [of "demo_key ''private'' 4" ?e server_init "''p1''"] priv
  have b: "calls (snd (GetIdentity ?e (demo_key ''private'' 4) ''p1'' server_init)) =
     calls server_init @ [Ossl_getRandomValues 32]"
    and c: "length (ToHex (map (random_byte ?e (calls server_init)) [0..<32])) = 64"
    by blast+
  show ?thesis using a b c unfolding hex c0 by simp
qed

text \<open>
  Claim C9. On a \<open>token\<close> event the server hands one \<open>ProviderTokenEventProto\<close> to
  \<open>server.send\<close> for each session, in order, that has a cipher and is authorized, and
  nothing for any other session.
\<close>

theorem token_event_to_authorized_sessions:
  "sent (on_token info s) = sent s @ token_sessions (sessions s) info \<and>
   map fst (token_sessions (sessions s) info) =
     filter (\<lambda>x. cipher x \<noteq> None \<and> authorized x) (sessions s) \<and>
   list_all is_token_event (map snd (token_sessions (sessions s) info)) \<and>
   (session \<in> fst ` set (token_sessions (sessions s) info) \<longleftrightarrow>
      session \<in> set (sessions s) \<and> cipher session \<noteq> None \<and> authorized session)"
proof -
  have "fst ` set (token_sessions (sessions s) info) =
      set (filter (\<lambda>x. cipher x \<noteq> None \<and> authorized x) (sessions s))"
    using token_sessions_fst [of "sessions s" info] by (metis set_map)
  then show ?thesis
    by (auto simp: on_token_def token_sessions_fst token_sessions_snd)
qed



end
